theory Spec2Isabelle
  imports Main "HOL-Library.Signed_Division"
begin

section \<open>The process environment of logging.c\<close>

text \<open>
  logging.c talks to the kernel through \<open>open\<close>, \<open>write\<close>, \<open>writev\<close>, \<open>ftruncate\<close> and
  \<open>isatty\<close>, and to the C library through \<open>perror\<close>, \<open>gettimeofday\<close>, \<open>strftime\<close> and
  \<open>printf\<close>-style formatting. The environment is the part of the world these calls
  read and change:
  \<^item> the descriptor table of the process, indexed by descriptor number; an open
    descriptor names the file or device it refers to;
  \<^item> the bytes of every file, and for a device the bytes written to it so far;
  \<^item> for every path, whether \<open>open\<close> fails on it, and with which error text;
  \<^item> which files are terminals;
  \<^item> the error text \<open>perror\<close> would print (set by a failing \<open>open\<close>);
  \<^item> the wall clock, and the rendering \<open>strftime("%F %T")\<close> gives for \<open>localtime_r\<close> of
    the current time;
  \<^item> the rendering \<open>strftime("%F %T")\<close> gives for \<open>gmtime\<close> of a time, and \<open>None\<close> for a
    time \<open>gmtime\<close> cannot convert: it returns \<open>NULL\<close> when the year does not fit an
    \<open>int\<close>;
  \<^item> what the conversion of a \<open>double\<close> to \<open>int\<close> gives for a value that does not fit an
    \<open>int\<close>, which C leaves undefined (the conversion instruction of x86-64 gives
    \<open>INT_MIN\<close>), and \<open>None\<close> where it gives no result;
  \<^item> \<open>debug_level\<close>, the integer of the surrounding application that \<open>print_log\<close> reads.

  A write to an open descriptor is taken to succeed in full; the source ignores the
  result of every write. All three files are opened with \<open>O_APPEND\<close>, so a write
  lands at the end of the file.
\<close>

record sys =
  fdtab :: "string option list"
  bytes :: "string \<Rightarrow> string"
  open_err :: "string \<Rightarrow> string option"
  terminal :: "string \<Rightarrow> bool"
  errno :: string
  clock :: int
  localtime_FT :: "int \<Rightarrow> string"
  gmtime_FT :: "int \<Rightarrow> string option"
  int_of_unfit_double :: "int \<Rightarrow> int option"
  debug_level :: int

abbreviation nl :: char where
  "nl \<equiv> CHR 0x0A"

abbreviation esc :: char where
  "esc \<equiv> CHR 0x1B"

abbreviation STDERR_FILENO :: int where
  "STDERR_FILENO \<equiv> 2"

definition fd_lookup :: "sys \<Rightarrow> int \<Rightarrow> string option" where
  "fd_lookup k fd =
     (if 0 \<le> fd \<and> nat fd < length (fdtab k) then fdtab k ! nat fd else None)"

text \<open>\<open>open\<close> hands out the lowest descriptor number that is not in use.\<close>

fun lowest_free :: "string option list \<Rightarrow> nat" where
  "lowest_free [] = 0"
| "lowest_free (None # t) = 0"
| "lowest_free (Some d # t) = Suc (lowest_free t)"

text \<open>
  \<open>open(path, O_CREAT|O_APPEND|O_WRONLY, 0644)\<close>: on failure the result is \<open>-1\<close> and the
  error is recorded; on success the file keeps its bytes (it is created empty when it
  did not exist) and a new descriptor refers to it.
\<close>

definition sys_open :: "sys \<Rightarrow> string \<Rightarrow> sys \<times> int" where
  "sys_open k path =
     (case open_err k path of
        Some e \<Rightarrow> (k\<lparr>errno := e\<rparr>, - 1)
      | None \<Rightarrow>
          (let i = lowest_free (fdtab k)
           in (k\<lparr>fdtab := (if i < length (fdtab k) then (fdtab k)[i := Some path]
                             else fdtab k @ [Some path])\<rparr>,
               int i)))"

text \<open>\<open>write\<close> on a descriptor that is not open fails (\<open>EBADF\<close>) and changes nothing.\<close>

definition sys_write :: "sys \<Rightarrow> int \<Rightarrow> string \<Rightarrow> sys" where
  "sys_write k fd buf =
     (case fd_lookup k fd of
        None \<Rightarrow> k
      | Some d \<Rightarrow> k\<lparr>bytes := (bytes k)(d := bytes k d @ buf)\<rparr>)"

text \<open>\<open>writev(fd, parts, n)\<close> writes the first \<open>n\<close> parts as one write.\<close>

definition sys_writev :: "sys \<Rightarrow> int \<Rightarrow> string list \<Rightarrow> nat \<Rightarrow> sys" where
  "sys_writev k fd parts n = sys_write k fd (concat (take n parts))"

text \<open>
  \<open>ftruncate(fd, 0)\<close> empties a regular file; it fails on a descriptor that is not open
  (\<open>EBADF\<close>) and on a terminal (\<open>EINVAL\<close>), changing nothing.
\<close>

definition sys_ftruncate :: "sys \<Rightarrow> int \<Rightarrow> sys" where
  "sys_ftruncate k fd =
     (case fd_lookup k fd of
        None \<Rightarrow> k
      | Some d \<Rightarrow> if terminal k d then k else k\<lparr>bytes := (bytes k)(d := [])\<rparr>)"

definition sys_isatty :: "sys \<Rightarrow> int \<Rightarrow> int" where
  "sys_isatty k fd =
     (case fd_lookup k fd of
        None \<Rightarrow> 0
      | Some d \<Rightarrow> if terminal k d then 1 else 0)"

text \<open>\<open>perror(msg)\<close> prints \<open>msg\<close>, a colon and the error text on standard error.\<close>

definition perror :: "sys \<Rightarrow> string \<Rightarrow> sys" where
  "perror k msg = sys_write k STDERR_FILENO (msg @ '': '' @ errno k @ [nl])"

section \<open>printf conversions used by the source\<close>

definition digit :: "nat \<Rightarrow> char" where
  "digit n = ''0123456789'' ! n"

function dec :: "nat \<Rightarrow> string" where
  "dec n = (if n < 10 then [digit n] else dec (n div 10) @ [digit (n mod 10)])"
  by pat_completeness auto
termination
  by (relation "measure id") auto

declare dec.simps [simp del]

text \<open>\<open>%d\<close> of an \<open>int\<close>.\<close>

definition fmt_d :: "int \<Rightarrow> string" where
  "fmt_d i = (if i < 0 then CHR ''-'' # dec (nat (- i)) else dec (nat i))"

text \<open>\<open>%02d\<close>: the same, padded with zeros after the sign to a width of two.\<close>

definition fmt_02d :: "int \<Rightarrow> string" where
  "fmt_02d i =
     (if i < 0 then CHR ''-'' # replicate (1 - length (dec (nat (- i)))) CHR ''0'' @ dec (nat (- i))
      else replicate (2 - length (dec (nat i))) CHR ''0'' @ dec (nat i))"

text \<open>
  \<open>(int)difftime(playend, playstart)\<close>: the difference of the two times as a
  \<open>double\<close> (exact for every time below \<open>2^53\<close> in magnitude), converted to \<open>int\<close>.
  The conversion is undefined in C when the value does not fit an \<open>int\<close>; the
  result is then what the environment says the machine gives, if that is an \<open>int\<close>.
\<close>

definition INT_MIN :: int where
  "INT_MIN = - 2147483648"

definition INT_MAX :: int where
  "INT_MAX = 2147483647"

definition difftime :: "int \<Rightarrow> int \<Rightarrow> int" where
  "difftime time1 time0 = time1 - time0"

definition int_of_double :: "sys \<Rightarrow> int \<Rightarrow> int option" where
  "int_of_double k d =
     (if INT_MIN \<le> d \<and> d \<le> INT_MAX then Some d
      else (case int_of_unfit_double k d of
              None \<Rightarrow> None
            | Some v \<Rightarrow> if INT_MIN \<le> v \<and> v \<le> INT_MAX then Some v else None))"

section \<open>The logger\<close>

text \<open>
  The file-scope variables of logging.c (the trailing underscore of \<open>info_markup_start_\<close>,
  \<open>error_markup_start_\<close> and \<open>markup_end_\<close> is dropped), and the environment they live in.
\<close>

record state =
  log_fd :: int
  last_played_fd :: int
  playback_fd :: int
  enable_color :: int
  info_markup_start :: string
  error_markup_start :: string
  markup_end :: string
  os :: sys

definition kInfoHighlight :: string where
  "kInfoHighlight = esc # ''[1mINFO  ''"

definition kErrorHighlight :: string where
  "kErrorHighlight = esc # ''[1m'' @ esc # ''[31mERROR ''"

definition kTermReset :: string where
  "kTermReset = esc # ''[0m''"

text \<open>The static initialisers: the state of the logger at process start.\<close>

definition initial :: "sys \<Rightarrow> state" where
  "initial k =
     \<lparr>log_fd = - 1, last_played_fd = - 1, playback_fd = - 1, enable_color = 0,
      info_markup_start = ''INFO  '', error_markup_start = ''ERROR '',
      markup_end = '''', os = k\<rparr>"

text \<open>
  The three blocks of \<open>Log_init\<close> that open a destination when its path is not
  \<open>NULL\<close> (a \<open>NULL\<close> path is \<open>None\<close>) and store the result of \<open>open\<close> in the variable of
  the destination.
\<close>

definition open_log_file :: "state \<Rightarrow> string option \<Rightarrow> state" where
  "open_log_file s filename =
     (case filename of
        None \<Rightarrow> s
      | Some p \<Rightarrow> (let (k, fd) = sys_open (os s) p in s\<lparr>log_fd := fd, os := k\<rparr>))"

definition open_last_played_file :: "state \<Rightarrow> string option \<Rightarrow> state" where
  "open_last_played_file s last_played_file =
     (case last_played_file of
        None \<Rightarrow> s
      | Some p \<Rightarrow> (let (k, fd) = sys_open (os s) p in s\<lparr>last_played_fd := fd, os := k\<rparr>))"

definition open_playback_time_file :: "state \<Rightarrow> string option \<Rightarrow> state" where
  "open_playback_time_file s playback_time_file =
     (case playback_time_file of
        None \<Rightarrow> s
      | Some p \<Rightarrow> (let (k, fd) = sys_open (os s) p in s\<lparr>playback_fd := fd, os := k\<rparr>))"

text \<open>
  \<open>Log_init\<close>. After each block, a negative descriptor makes the function print the
  error and return; the terminal check and the choice of the markup strings come last.
\<close>

definition Log_init :: "state \<Rightarrow> string option \<Rightarrow> string option \<Rightarrow> string option \<Rightarrow> state" where
  "Log_init s filename last_played_file playback_time_file =
     (let s1 = open_log_file s filename
      in if filename \<noteq> None \<and> log_fd s1 < 0
         then s1\<lparr>os := perror (os s1) ''Cannot open logfile''\<rparr>
         else
     (let s2 = open_last_played_file s1 last_played_file
      in if last_played_file \<noteq> None \<and> last_played_fd s2 < 0
         then s2\<lparr>os := perror (os s2) ''Cannot open last played file''\<rparr>
         else
     (let s3 = open_playback_time_file s2 playback_time_file
      in if playback_time_file \<noteq> None \<and> playback_fd s3 < 0
         then s3\<lparr>os := perror (os s3) ''Cannot open playback time file''\<rparr>
         else
     (let s4 = s3\<lparr>enable_color := sys_isatty (os s3) (log_fd s3)\<rparr>
      in if enable_color s4 \<noteq> 0
         then s4\<lparr>info_markup_start := kInfoHighlight,
                 error_markup_start := kErrorHighlight,
                 markup_end := kTermReset\<rparr>
         else s4))))"

definition Log_color_allowed :: "state \<Rightarrow> int" where
  "Log_color_allowed s = enable_color s"

definition Log_info_enabled :: "state \<Rightarrow> int" where
  "Log_info_enabled s = (if log_fd s \<ge> 0 then 1 else 0)"

definition Log_error_enabled :: "state \<Rightarrow> int" where
  "Log_error_enabled s = 1"

text \<open>The prefix of a line: \<open>asprintf\<close> with the format \<open>"%s[%s | %s]%s "\<close>.\<close>

definition log_prefix :: "string \<Rightarrow> string \<Rightarrow> string \<Rightarrow> string \<Rightarrow> string" where
  "log_prefix markup_start fmt_buf category markup_end' =
     markup_start @ ''['' @ fmt_buf @ '' | '' @ category @ '']'' @ markup_end' @ '' ''"

text \<open>
  \<open>Log_internal\<close>. \<open>msg\<close> is the message as \<open>vasprintf\<close> rendered it from the format and
  its arguments. The three parts are the prefix, the message and a newline; the
  newline is left out when the message is not empty and its last byte is a newline.
\<close>

definition Log_internal :: "state \<Rightarrow> int \<Rightarrow> string \<Rightarrow> string \<Rightarrow> string \<Rightarrow> state" where
  "Log_internal s fd markup_start category msg =
     (let fmt_buf = localtime_FT (os s) (clock (os s));
          parts = [log_prefix markup_start fmt_buf category (markup_end s), msg, [nl]];
          already_newline = (length msg > 0 \<and> msg ! (length msg - 1) = nl)
      in s\<lparr>os := sys_writev (os s) fd parts (if already_newline then 2 else 3)\<rparr>)"

definition Log_info :: "state \<Rightarrow> string \<Rightarrow> string \<Rightarrow> state" where
  "Log_info s category msg =
     (if log_fd s < 0 then s
      else Log_internal s (log_fd s) (info_markup_start s) category msg)"

definition Log_error :: "state \<Rightarrow> string \<Rightarrow> string \<Rightarrow> state" where
  "Log_error s category msg =
     Log_internal s (if log_fd s < 0 then STDERR_FILENO else log_fd s)
       (error_markup_start s) category msg"

definition print_log :: "state \<Rightarrow> int \<Rightarrow> string \<Rightarrow> string \<Rightarrow> state" where
  "print_log s level category msg =
     (if level > debug_level (os s) then s
      else Log_internal s (if log_fd s < 0 then STDERR_FILENO else log_fd s)
             (info_markup_start s) category msg)"

text \<open>The rendering of the format \<open>"UPNP_LAST_PLAYED='%s'\\n"\<close>.\<close>

definition last_played_line :: "string \<Rightarrow> string" where
  "last_played_line timestring =
     ''UPNP_LAST_PLAYED='' @ [CHR 0x27] @ timestring @ [CHR 0x27, nl]"

text \<open>
  \<open>log_last_playback\<close>. The source hands the result of \<open>gmtime\<close> to \<open>strftime\<close> without a
  test. For a time \<open>gmtime\<close> cannot convert, \<open>strftime\<close> reads through the null pointer and
  the process dies, before \<open>ftruncate\<close> and \<open>write\<close> are reached: the result is \<open>None\<close>.
\<close>

definition log_last_playback :: "state \<Rightarrow> int \<Rightarrow> state option" where
  "log_last_playback s playstart =
     (case gmtime_FT (os s) playstart of
        None \<Rightarrow> None
      | Some timestring \<Rightarrow>
          (let buffer = last_played_line timestring;
               k1 = sys_ftruncate (os s) (last_played_fd s);
               k2 = sys_write k1 (last_played_fd s) buffer
           in Some (s\<lparr>os := k2\<rparr>)))"

text \<open>The rendering of the format \<open>"UPNP_TOTAL=%d\\n"\<close>.\<close>

definition total_line :: "int \<Rightarrow> string" where
  "total_line rawSeconds = ''UPNP_TOTAL='' @ fmt_d rawSeconds @ [nl]"

text \<open>The rendering of the format \<open>"Total playing time %02d:%02d:%02d\\n"\<close>.\<close>

definition total_playing_time :: "int \<Rightarrow> int \<Rightarrow> int \<Rightarrow> string" where
  "total_playing_time h m sec =
     ''Total playing time '' @ fmt_02d h @ '':'' @ fmt_02d m @ '':'' @ fmt_02d sec @ [nl]"

text \<open>
  \<open>log_playback_duration\<close>. \<open>/\<close> and \<open>%\<close> on \<open>int\<close> truncate towards zero. The result
  is \<open>None\<close> where the conversion of the elapsed time to \<open>int\<close> gives no result.
\<close>

definition log_playback_duration :: "state \<Rightarrow> int \<Rightarrow> int \<Rightarrow> state option" where
  "log_playback_duration s playstart playend =
     (case int_of_double (os s) (difftime playend playstart) of
        None \<Rightarrow> None
      | Some rawSeconds \<Rightarrow>
          (let elapsedHours = rawSeconds sdiv 3600;
               elapsedMin = (rawSeconds sdiv 60) smod 60;
               elapsedSec = rawSeconds smod 60;
               buffer = total_line rawSeconds;
               k1 = sys_ftruncate (os s) (playback_fd s);
               k2 = sys_write k1 (playback_fd s) buffer
           in Some (print_log (s\<lparr>os := k2\<rparr>) 0 ''transport''
                      (total_playing_time elapsedHours elapsedMin elapsedSec))))"

section \<open>Sequences of calls\<close>

text \<open>
  The operations a caller can invoke after \<open>Log_init\<close>, and the state a sequence of
  calls leads to (\<open>None\<close> when a call in it has no result).
\<close>

datatype call =
    Call_Log_info string string
  | Call_Log_error string string
  | Call_print_log int string string
  | Call_log_last_playback int
  | Call_log_playback_duration int int

fun step :: "state \<Rightarrow> call \<Rightarrow> state option" where
  "step s (Call_Log_info category msg) = Some (Log_info s category msg)"
| "step s (Call_Log_error category msg) = Some (Log_error s category msg)"
| "step s (Call_print_log level category msg) = Some (print_log s level category msg)"
| "step s (Call_log_last_playback playstart) = log_last_playback s playstart"
| "step s (Call_log_playback_duration playstart playend) =
     log_playback_duration s playstart playend"

fun run :: "state \<Rightarrow> call list \<Rightarrow> state option" where
  "run s [] = Some s"
| "run s (c # cs) = (case step s c of None \<Rightarrow> None | Some s' \<Rightarrow> run s' cs)"

section \<open>Notions used to state the properties\<close>

text \<open>The number of newline bytes at the end of a string.\<close>

definition trailing_newlines :: "string \<Rightarrow> nat" where
  "trailing_newlines xs = length (takeWhile (\<lambda>c. c = nl) (rev xs))"

text \<open>The descriptor \<open>Log_error\<close> and \<open>print_log\<close> write to.\<close>

definition log_target :: "state \<Rightarrow> int" where
  "log_target s = (if log_fd s < 0 then STDERR_FILENO else log_fd s)"

text \<open>
  The bytes \<open>Log_internal\<close> hands to \<open>writev\<close>: the prefix, the message, and the
  newline unless the message is not empty and ends with one.
\<close>

definition log_line :: "state \<Rightarrow> string \<Rightarrow> string \<Rightarrow> string \<Rightarrow> string" where
  "log_line s markup_start category msg =
     log_prefix markup_start (localtime_FT (os s) (clock (os s))) category (markup_end s)
       @ msg @ (if msg \<noteq> [] \<and> last msg = nl then [] else [nl])"

text \<open>
  The state \<open>log_playback_duration\<close> is in after it has rewritten the playback-time
  file (the \<open>ftruncate\<close> and the \<open>write\<close>), before it calls \<open>print_log\<close>; \<open>r\<close> is
  \<open>rawSeconds\<close>.
\<close>

definition after_total :: "state \<Rightarrow> int \<Rightarrow> state" where
  "after_total s r =
     s\<lparr>os := sys_write (sys_ftruncate (os s) (playback_fd s)) (playback_fd s) (total_line r)\<rparr>"

text \<open>The message \<open>log_playback_duration\<close> passes to \<open>print_log\<close> for \<open>rawSeconds = r\<close>.\<close>

definition playing_time_msg :: "int \<Rightarrow> string" where
  "playing_time_msg r = total_playing_time (r sdiv 3600) ((r sdiv 60) smod 60) (r smod 60)"

text \<open>A path was given to \<open>Log_init\<close> and \<open>open\<close> fails on it.\<close>

definition open_fails :: "sys \<Rightarrow> string option \<Rightarrow> bool" where
  "open_fails k f = (case f of None \<Rightarrow> False | Some p \<Rightarrow> open_err k p \<noteq> None)"

text \<open>The path given for the log file is a terminal.\<close>

definition log_is_terminal :: "sys \<Rightarrow> string option \<Rightarrow> bool" where
  "log_is_terminal k f = (case f of None \<Rightarrow> False | Some p \<Rightarrow> terminal k p)"

text \<open>
  What a successful \<open>Log_init\<close> leaves in the variable of a destination: \<open>-1\<close> when no
  path was given, else a descriptor that is open on the path.
\<close>

definition opened :: "state \<Rightarrow> int \<Rightarrow> string option \<Rightarrow> bool" where
  "opened s fd f =
     (case f of None \<Rightarrow> fd = - 1 | Some p \<Rightarrow> 0 \<le> fd \<and> fd_lookup (os s) fd = Some p)"

text \<open>
  The rendering of a time as \<open>%F %T\<close> in the time zone UTC, for the years 1000 to
  9999: the days since the epoch are turned into a civil date of the Gregorian
  calendar. It serves as the C library of the example environment below.
\<close>

definition utc_FT :: "int \<Rightarrow> string" where
  "utc_FT t =
     (let days = t div 86400; secs = t mod 86400;
          z = days + 719468;
          era = z div 146097;
          doe = z mod 146097;
          yoe = (doe - doe div 1460 + doe div 36524 - doe div 146096) div 365;
          doy = doe - (365 * yoe + yoe div 4 - yoe div 100);
          mp = (5 * doy + 2) div 153;
          d = doy - (153 * mp + 2) div 5 + 1;
          m = (if mp < 10 then mp + 3 else mp - 9);
          y = yoe + era * 400 + (if m \<le> 2 then 1 else 0)
      in fmt_d y @ ''-'' @ fmt_02d m @ ''-'' @ fmt_02d d @ '' ''
           @ fmt_02d (secs div 3600) @ '':'' @ fmt_02d (secs div 60 mod 60) @ '':''
           @ fmt_02d (secs mod 60))"

text \<open>
  The times \<open>gmtime\<close> converts where \<open>time_t\<close> has 64 bits: from the first second of the
  year \<open>INT_MIN + 1900\<close> to the last second of the year \<open>INT_MAX + 1900\<close>.
\<close>

definition gmtime_converts :: "int \<Rightarrow> bool" where
  "gmtime_converts t \<longleftrightarrow> - 67768040609740800 \<le> t \<and> t < 67768036191676800"

text \<open>
  An environment to run the logger in: descriptors 0 to 2 are open, descriptor 2 on
  the device \<open>stderr\<close>; \<open>/dev/tty\<close> is a terminal; \<open>open\<close> fails on \<open>/nope\<close>; all files
  are empty; the clock shows 2023-11-14 22:13:20 UTC, and UTC is the local time zone;
  \<open>gmtime\<close> fails outside the times above; a \<open>double\<close> that does not fit is converted to
  \<open>INT_MIN\<close>, as on x86-64.
\<close>

definition example_sys :: sys where
  "example_sys =
     \<lparr>fdtab = [Some ''stdin'', Some ''stdout'', Some ''stderr''],
      bytes = (\<lambda>p. []),
      open_err = (\<lambda>p. if p = ''/nope'' then Some ''No such file or directory'' else None),
      terminal = (\<lambda>p. p = ''/dev/tty''),
      errno = [],
      clock = 1700000000,
      localtime_FT = utc_FT,
      gmtime_FT = (\<lambda>t. if gmtime_converts t then Some (utc_FT t) else None),
      int_of_unfit_double = (\<lambda>d. Some INT_MIN),
      debug_level = 0\<rparr>"

text \<open>
  States of the logger after \<open>Log_init\<close> in the example environment: with three plain
  files; without a log file; with a terminal as the log file; with a log file that
  cannot be opened; with a terminal as the log file and a last-played file, or a
  playback-time file, that cannot be opened.
\<close>

definition ex_files :: state where
  "ex_files = Log_init (initial example_sys)
     (Some ''gmrender.log'') (Some ''last_played'') (Some ''playback_time'')"

definition ex_nolog :: state where
  "ex_nolog = Log_init (initial example_sys) None (Some ''last_played'') (Some ''playback_time'')"

definition ex_tty :: state where
  "ex_tty = Log_init (initial example_sys)
     (Some ''/dev/tty'') (Some ''last_played'') (Some ''playback_time'')"

definition ex_logfail :: state where
  "ex_logfail = Log_init (initial example_sys)
     (Some ''/nope'') (Some ''last_played'') (Some ''playback_time'')"

definition ex_lpfail :: state where
  "ex_lpfail = Log_init (initial example_sys)
     (Some ''/dev/tty'') (Some ''/nope'') (Some ''playback_time'')"

definition ex_pbfail :: state where
  "ex_pbfail = Log_init (initial example_sys)
     (Some ''/dev/tty'') (Some ''last_played'') (Some ''/nope'')"

text \<open>
  Three more states: with a log file and no other file; with three plain files in an
  environment whose \<open>debug_level\<close> is \<open>-1\<close>; with a log file and no other file in
  that environment.
\<close>

definition ex_logonly :: state where
  "ex_logonly = Log_init (initial example_sys) (Some ''gmrender.log'') None None"

definition ex_quiet :: state where
  "ex_quiet = Log_init (initial (example_sys\<lparr>debug_level := - 1\<rparr>))
     (Some ''gmrender.log'') (Some ''last_played'') (Some ''playback_time'')"

definition ex_quiet_logonly :: state where
  "ex_quiet_logonly = Log_init (initial (example_sys\<lparr>debug_level := - 1\<rparr>))
     (Some ''gmrender.log'') None None"

section \<open>Evaluation in the example environment\<close>

text \<open>The renderings and the example states, computed once.\<close>

lemma dec_eval:
  "dec 0 = ''0''" "dec 1 = ''1''" "dec (Suc 0) = ''1''" "dec 2 = ''2''" "dec 5 = ''5''"
  "dec 25 = ''25''" "dec 3725 = ''3725''" "dec 90000 = ''90000''" "dec 8 = ''8''"
  "dec 14 = ''14''" "dec 596523 = ''596523''" "dec 2147483648 = ''2147483648''"
  by (simp_all add: dec.simps digit_def)

lemma fmt_eval:
  "fmt_d 3725 = ''3725''" "fmt_d 90000 = ''90000''" "fmt_d 5 = ''5''"
  "fmt_02d 0 = ''00''" "fmt_02d 1 = ''01''" "fmt_02d 2 = ''02''" "fmt_02d 5 = ''05''"
  "fmt_02d 25 = ''25''" "fmt_d (- 2147483648) = ''-2147483648''"
  "fmt_02d (- 596523) = ''-596523''" "fmt_02d (- 14) = ''-14''" "fmt_02d (- 8) = ''-8''"
  by (simp_all add: fmt_d_def fmt_02d_def dec_eval)

lemma playing_time_msg_eval:
  "playing_time_msg 5 = ''Total playing time 00:00:05'' @ [nl]"
  "playing_time_msg 3725 = ''Total playing time 01:02:05'' @ [nl]"
  "playing_time_msg 90000 = ''Total playing time 25:00:00'' @ [nl]"
  "playing_time_msg (- 2147483648) = ''Total playing time -596523:-14:-8'' @ [nl]"
  by (simp_all add: playing_time_msg_def total_playing_time_def signed_divide_int_def
      signed_modulo_int_def fmt_eval)

lemma utc_FT_eval:
  "utc_FT 0 = ''1970-01-01 00:00:00''"
  "utc_FT 1700000000 = ''2023-11-14 22:13:20''"
  by code_simp+

lemmas init_eval = Log_init_def initial_def open_log_file_def open_last_played_file_def
  open_playback_time_file_def sys_open_def example_sys_def Let_def sys_isatty_def fd_lookup_def
  perror_def sys_write_def

lemma ex_files_eq:
  "ex_files = \<lparr>log_fd = 3, last_played_fd = 4, playback_fd = 5, enable_color = 0,
      info_markup_start = ''INFO  '', error_markup_start = ''ERROR '', markup_end = '''',
      os = example_sys\<lparr>fdtab := [Some ''stdin'', Some ''stdout'', Some ''stderr'',
             Some ''gmrender.log'', Some ''last_played'', Some ''playback_time'']\<rparr>\<rparr>"
  by (simp add: ex_files_def init_eval)

lemma ex_nolog_eq:
  "ex_nolog = \<lparr>log_fd = - 1, last_played_fd = 3, playback_fd = 4, enable_color = 0,
      info_markup_start = ''INFO  '', error_markup_start = ''ERROR '', markup_end = '''',
      os = example_sys\<lparr>fdtab := [Some ''stdin'', Some ''stdout'', Some ''stderr'',
             Some ''last_played'', Some ''playback_time'']\<rparr>\<rparr>"
  by (simp add: ex_nolog_def init_eval)

lemma ex_tty_eq:
  "ex_tty = \<lparr>log_fd = 3, last_played_fd = 4, playback_fd = 5, enable_color = 1,
      info_markup_start = kInfoHighlight, error_markup_start = kErrorHighlight,
      markup_end = kTermReset,
      os = example_sys\<lparr>fdtab := [Some ''stdin'', Some ''stdout'', Some ''stderr'',
             Some ''/dev/tty'', Some ''last_played'', Some ''playback_time'']\<rparr>\<rparr>"
  by (simp add: ex_tty_def init_eval)

lemma ex_logfail_eq:
  "ex_logfail = \<lparr>log_fd = - 1, last_played_fd = - 1, playback_fd = - 1, enable_color = 0,
      info_markup_start = ''INFO  '', error_markup_start = ''ERROR '', markup_end = '''',
      os = example_sys\<lparr>errno := ''No such file or directory'',
             bytes := (\<lambda>p. [])(''stderr'' :=
               ''Cannot open logfile: No such file or directory'' @ [nl])\<rparr>\<rparr>"
  by (simp add: ex_logfail_def init_eval)

lemma ex_lpfail_eq:
  "ex_lpfail = \<lparr>log_fd = 3, last_played_fd = - 1, playback_fd = - 1, enable_color = 0,
      info_markup_start = ''INFO  '', error_markup_start = ''ERROR '', markup_end = '''',
      os = example_sys\<lparr>fdtab := [Some ''stdin'', Some ''stdout'', Some ''stderr'',
             Some ''/dev/tty''],
             errno := ''No such file or directory'',
             bytes := (\<lambda>p. [])(''stderr'' :=
               ''Cannot open last played file: No such file or directory'' @ [nl])\<rparr>\<rparr>"
  by (simp add: ex_lpfail_def init_eval)

lemma ex_pbfail_eq:
  "ex_pbfail = \<lparr>log_fd = 3, last_played_fd = 4, playback_fd = - 1, enable_color = 0,
      info_markup_start = ''INFO  '', error_markup_start = ''ERROR '', markup_end = '''',
      os = example_sys\<lparr>fdtab := [Some ''stdin'', Some ''stdout'', Some ''stderr'',
             Some ''/dev/tty'', Some ''last_played''],
             errno := ''No such file or directory'',
             bytes := (\<lambda>p. [])(''stderr'' :=
               ''Cannot open playback time file: No such file or directory'' @ [nl])\<rparr>\<rparr>"
  by (simp add: ex_pbfail_def init_eval)

lemma ex_logonly_eq:
  "ex_logonly = \<lparr>log_fd = 3, last_played_fd = - 1, playback_fd = - 1, enable_color = 0,
      info_markup_start = ''INFO  '', error_markup_start = ''ERROR '', markup_end = '''',
      os = example_sys\<lparr>fdtab := [Some ''stdin'', Some ''stdout'', Some ''stderr'',
             Some ''gmrender.log'']\<rparr>\<rparr>"
  by (simp add: ex_logonly_def init_eval)

lemma ex_quiet_eq:
  "ex_quiet = \<lparr>log_fd = 3, last_played_fd = 4, playback_fd = 5, enable_color = 0,
      info_markup_start = ''INFO  '', error_markup_start = ''ERROR '', markup_end = '''',
      os = example_sys\<lparr>fdtab := [Some ''stdin'', Some ''stdout'', Some ''stderr'',
             Some ''gmrender.log'', Some ''last_played'', Some ''playback_time''],
             debug_level := - 1\<rparr>\<rparr>"
  by (simp add: ex_quiet_def init_eval)

lemma ex_quiet_logonly_eq:
  "ex_quiet_logonly = \<lparr>log_fd = 3, last_played_fd = - 1, playback_fd = - 1, enable_color = 0,
      info_markup_start = ''INFO  '', error_markup_start = ''ERROR '', markup_end = '''',
      os = example_sys\<lparr>fdtab := [Some ''stdin'', Some ''stdout'', Some ''stderr'',
             Some ''gmrender.log''],
             debug_level := - 1\<rparr>\<rparr>"
  by (simp add: ex_quiet_logonly_def init_eval)

lemmas ex_eq = ex_files_eq ex_nolog_eq ex_tty_eq ex_logfail_eq ex_lpfail_eq ex_pbfail_eq
  ex_logonly_eq ex_quiet_eq ex_quiet_logonly_eq

lemmas op_eval = Log_info_def Log_error_def print_log_def Log_internal_def
  log_last_playback_def log_playback_duration_def sys_writev_def sys_write_def
  sys_ftruncate_def sys_isatty_def fd_lookup_def log_line_def log_prefix_def log_target_def
  after_total_def total_line_def last_played_line_def difftime_def int_of_double_def
  INT_MIN_def INT_MAX_def example_sys_def Let_def open_fails_def opened_def
  log_is_terminal_def Log_color_allowed_def Log_info_enabled_def trailing_newlines_def
  kInfoHighlight_def kErrorHighlight_def kTermReset_def total_playing_time_def
  signed_divide_int_def signed_modulo_int_def fmt_eval playing_time_msg_eval utc_FT_eval
  gmtime_converts_def

section \<open>Basic facts about the environment\<close>

lemma fd_lookup_neg: "fd < 0 \<Longrightarrow> fd_lookup k fd = None"
  by (simp add: fd_lookup_def)

lemma sys_write_closed: "fd_lookup k fd = None \<Longrightarrow> sys_write k fd buf = k"
  by (simp add: sys_write_def)

lemma sys_ftruncate_closed: "fd_lookup k fd = None \<Longrightarrow> sys_ftruncate k fd = k"
  by (simp add: sys_ftruncate_def)

lemma bytes_sys_write:
  "fd_lookup k fd = Some d \<Longrightarrow> bytes (sys_write k fd buf) = (bytes k)(d := bytes k d @ buf)"
  by (simp add: sys_write_def)

lemma bytes_sys_ftruncate:
  "fd_lookup k fd = Some d \<Longrightarrow> \<not> terminal k d \<Longrightarrow> bytes (sys_ftruncate k fd) = (bytes k)(d := [])"
  by (simp add: sys_ftruncate_def)

lemma sys_write_fields [simp]:
  "terminal (sys_write k fd buf) = terminal k"
  "debug_level (sys_write k fd buf) = debug_level k"
  "clock (sys_write k fd buf) = clock k"
  "localtime_FT (sys_write k fd buf) = localtime_FT k"
  "gmtime_FT (sys_write k fd buf) = gmtime_FT k"
  "open_err (sys_write k fd buf) = open_err k"
  "fdtab (sys_write k fd buf) = fdtab k"
  "errno (sys_write k fd buf) = errno k"
  by (simp_all add: sys_write_def split: option.splits)

lemma sys_ftruncate_fields [simp]:
  "terminal (sys_ftruncate k fd) = terminal k"
  "debug_level (sys_ftruncate k fd) = debug_level k"
  "clock (sys_ftruncate k fd) = clock k"
  "localtime_FT (sys_ftruncate k fd) = localtime_FT k"
  "gmtime_FT (sys_ftruncate k fd) = gmtime_FT k"
  "open_err (sys_ftruncate k fd) = open_err k"
  "fdtab (sys_ftruncate k fd) = fdtab k"
  "errno (sys_ftruncate k fd) = errno k"
  by (simp_all add: sys_ftruncate_def split: option.splits)

lemma fd_lookup_sys_write [simp]: "fd_lookup (sys_write k fd buf) fd' = fd_lookup k fd'"
  by (simp add: fd_lookup_def)

lemma fd_lookup_sys_ftruncate [simp]: "fd_lookup (sys_ftruncate k fd) fd' = fd_lookup k fd'"
  by (simp add: fd_lookup_def)

lemma fd_lookup_perror [simp]: "fd_lookup (perror k msg) fd = fd_lookup k fd"
  by (simp add: perror_def)

lemma lowest_free_le: "lowest_free t \<le> length t"
  by (induction t rule: lowest_free.induct) auto

lemma lowest_free_None: "lowest_free t < length t \<Longrightarrow> t ! lowest_free t = None"
  by (induction t rule: lowest_free.induct) auto

lemma sys_open_fd_nonneg: "open_err k p = None \<Longrightarrow> 0 \<le> snd (sys_open k p)"
  by (simp add: sys_open_def Let_def)

lemma sys_open_fd_neg: "open_err k p \<noteq> None \<Longrightarrow> snd (sys_open k p) = - 1"
  by (auto simp add: sys_open_def)

lemma sys_open_lookup_new:
  "open_err k p = None \<Longrightarrow> fd_lookup (fst (sys_open k p)) (snd (sys_open k p)) = Some p"
  using lowest_free_le [of "fdtab k"]
  by (auto simp add: sys_open_def Let_def fd_lookup_def nth_append)

lemma sys_open_lookup_old:
  "fd_lookup k fd = Some d \<Longrightarrow> fd_lookup (fst (sys_open k p)) fd = Some d"
  using lowest_free_None [of "fdtab k"]
  by (auto simp add: sys_open_def Let_def fd_lookup_def nth_append nth_list_update
      split: option.splits if_splits)

lemma sys_open_fields [simp]:
  "terminal (fst (sys_open k p)) = terminal k"
  "debug_level (fst (sys_open k p)) = debug_level k"
  "clock (fst (sys_open k p)) = clock k"
  "localtime_FT (fst (sys_open k p)) = localtime_FT k"
  "gmtime_FT (fst (sys_open k p)) = gmtime_FT k"
  "open_err (fst (sys_open k p)) = open_err k"
  "bytes (fst (sys_open k p)) = bytes k"
  by (simp_all add: sys_open_def Let_def split: option.splits)

lemma Log_internal_os:
  "os (Log_internal s fd markup category msg) =
     sys_write (os s) fd (log_line s markup category msg)"
  by (cases "msg = []")
    (simp_all add: Log_internal_def log_line_def sys_writev_def Let_def last_conv_nth)

lemma Log_internal_vars [simp]:
  "log_fd (Log_internal s fd markup category msg) = log_fd s"
  "last_played_fd (Log_internal s fd markup category msg) = last_played_fd s"
  "playback_fd (Log_internal s fd markup category msg) = playback_fd s"
  "enable_color (Log_internal s fd markup category msg) = enable_color s"
  "info_markup_start (Log_internal s fd markup category msg) = info_markup_start s"
  "error_markup_start (Log_internal s fd markup category msg) = error_markup_start s"
  "markup_end (Log_internal s fd markup category msg) = markup_end s"
  by (simp_all add: Log_internal_def Let_def)

section \<open>Facts about the line emitter\<close>

lemma trailing_newlines_snoc_nl: "trailing_newlines (xs @ [nl]) = Suc (trailing_newlines xs)"
  by (simp add: trailing_newlines_def)

lemma trailing_newlines_append:
  "ys \<noteq> [] \<Longrightarrow> last ys \<noteq> nl \<Longrightarrow> trailing_newlines (ys @ xs) = trailing_newlines xs"
proof (induction xs rule: rev_induct)
  case Nil
  then show ?case
    by (cases ys rule: rev_cases) (simp_all add: trailing_newlines_def)
next
  case (snoc x xs)
  then show ?case
    by (cases "x = nl") (simp_all add: trailing_newlines_def flip: append_assoc)
qed

lemma log_prefix_last: "log_prefix m t c e \<noteq> [] \<and> last (log_prefix m t c e) = CHR '' ''"
  by (simp add: log_prefix_def)

lemma trailing_newlines_zero: "trailing_newlines xs = 0 \<longleftrightarrow> (xs = [] \<or> last xs \<noteq> nl)"
  by (cases xs rule: rev_cases) (simp_all add: trailing_newlines_def)

lemma log_line_one_newline:
  assumes "trailing_newlines msg \<le> 1"
  shows "trailing_newlines (log_line s m c msg) = 1"
proof (cases "msg \<noteq> [] \<and> last msg = nl")
  case True
  then have "trailing_newlines msg \<noteq> 0" by (simp add: trailing_newlines_zero)
  with assms have "trailing_newlines msg = 1" by simp
  with True show ?thesis
    using log_prefix_last [of m "localtime_FT (os s) (clock (os s))" c "markup_end s"]
    by (simp add: log_line_def trailing_newlines_append)
next
  case False
  let ?p = "log_prefix m (localtime_FT (os s) (clock (os s))) c (markup_end s)"
  from False have z: "trailing_newlines msg = 0" by (simp add: trailing_newlines_zero)
  have "trailing_newlines (?p @ msg @ [nl]) = Suc (trailing_newlines (?p @ msg))"
    using trailing_newlines_snoc_nl [of "?p @ msg"] by simp
  also have "trailing_newlines (?p @ msg) = 0"
    using log_prefix_last [of m "localtime_FT (os s) (clock (os s))" c "markup_end s"] z
    by (simp add: trailing_newlines_append)
  finally show ?thesis using False by (auto simp add: log_line_def)
qed

lemma Log_internal_bytes:
  "fd_lookup (os s) fd = Some d \<Longrightarrow>
   bytes (os (Log_internal s fd markup category msg)) = (bytes (os s))(d := bytes (os s) d @ log_line s markup category msg)"
  by (simp add: Log_internal_os bytes_sys_write)

lemma Log_error_eq:
  "Log_error s category msg = Log_internal s (log_target s) (error_markup_start s) category msg"
  by (simp add: Log_error_def log_target_def)

lemma print_log_eq:
  "level \<le> debug_level (os s) \<Longrightarrow>
   print_log s level category msg = Log_internal s (log_target s) (info_markup_start s) category msg"
  by (simp add: print_log_def log_target_def)

lemma print_log_quiet:
  "level > debug_level (os s) \<Longrightarrow> print_log s level category msg = s"
  by (simp add: print_log_def)

lemma Log_info_eq:
  "0 \<le> log_fd s \<Longrightarrow>
   Log_info s category msg = Log_internal s (log_target s) (info_markup_start s) category msg"
  by (simp add: Log_info_def log_target_def)

lemma Log_info_off: "log_fd s < 0 \<Longrightarrow> Log_info s category msg = s"
  by (simp add: Log_info_def)

section \<open>The trailing newline of a log line\<close>

text \<open>
  Claim C3. Let the rendered message end with at most one newline, and let the
  descriptor the operation writes to be open. Then \<open>Log_error\<close>, \<open>print_log\<close> at a level
  the threshold admits, and \<open>Log_info\<close> with a log file each append one line to the
  destination, for every category; the line ends with exactly one newline; it is the
  prefix followed by the message as it is when the message ends with a newline, and by
  the message and one newline when it does not.
\<close>

theorem log_line_ends_with_one_newline:
  assumes "trailing_newlines msg \<le> 1"
    and "fd_lookup (os s) (log_target s) = Some d"
    and "s' = Log_error s category msg \<and> m = error_markup_start s
       \<or> s' = print_log s level category msg \<and> level \<le> debug_level (os s) \<and> m = info_markup_start s
       \<or> s' = Log_info s category msg \<and> 0 \<le> log_fd s \<and> m = info_markup_start s"
  shows "bytes (os s') d = bytes (os s) d @ log_line s m category msg
       \<and> trailing_newlines (log_line s m category msg) = 1
       \<and> log_line s m category msg =
           log_prefix m (localtime_FT (os s) (clock (os s))) category (markup_end s)
             @ (if msg \<noteq> [] \<and> last msg = nl then msg else msg @ [nl])"
proof -
  from assms(3) have "s' = Log_internal s (log_target s) m category msg"
    by (auto simp add: Log_error_eq print_log_eq Log_info_eq)
  with assms(2) have "bytes (os s') d = bytes (os s) d @ log_line s m category msg"
    by (simp add: Log_internal_bytes)
  moreover have "trailing_newlines (log_line s m category msg) = 1"
    using assms(1) by (rule log_line_one_newline)
  ultimately show ?thesis
    by (simp add: log_line_def)
qed

text \<open>
  The theorem at work: an error line for the message \<open>hello\<close>, which gets its newline,
  an informational line for \<open>hello\<close> with a newline, which gets no second one, and a
  line of \<open>print_log\<close> on standard error.
\<close>

theorem log_line_ends_with_one_newline_witness:
  "trailing_newlines ''hello'' \<le> 1
   \<and> fd_lookup (os ex_files) (log_target ex_files) = Some ''gmrender.log''
   \<and> bytes (os (Log_error ex_files ''upnp'' ''hello'')) ''gmrender.log''
       = ''ERROR [2023-11-14 22:13:20 | upnp] hello'' @ [nl]
   \<and> trailing_newlines (''ERROR [2023-11-14 22:13:20 | upnp] hello'' @ [nl]) = 1
   \<and> trailing_newlines (''hello'' @ [nl]) \<le> 1
   \<and> 0 \<le> log_fd ex_files
   \<and> bytes (os (Log_info ex_files ''upnp'' (''hello'' @ [nl]))) ''gmrender.log''
       = ''INFO  [2023-11-14 22:13:20 | upnp] hello'' @ [nl]
   \<and> 0 \<le> debug_level (os ex_nolog)
   \<and> fd_lookup (os ex_nolog) (log_target ex_nolog) = Some ''stderr''
   \<and> bytes (os (print_log ex_nolog 0 ''upnp'' ''hello'')) ''stderr''
       = ''INFO  [2023-11-14 22:13:20 | upnp] hello'' @ [nl]"
proof -
  have p1: "0 \<le> debug_level (os ex_nolog)"
    by (simp add: ex_eq op_eval)
  have p2: "fd_lookup (os ex_nolog) (log_target ex_nolog) = Some ''stderr''"
    by (simp add: ex_eq op_eval)
  have p3: "log_line ex_nolog (info_markup_start ex_nolog) ''upnp'' ''hello''
              = ''INFO  [2023-11-14 22:13:20 | upnp] hello'' @ [nl]"
    by (simp add: ex_eq op_eval)
  have p4: "bytes (os ex_nolog) ''stderr'' = []"
    by (simp add: ex_eq op_eval)
  have f: "print_log ex_nolog 0 ''upnp'' ''hello'' = Log_error ex_nolog ''upnp'' ''hello''
             \<and> info_markup_start ex_nolog = error_markup_start ex_nolog
         \<or> print_log ex_nolog 0 ''upnp'' ''hello'' = print_log ex_nolog 0 ''upnp'' ''hello''
             \<and> 0 \<le> debug_level (os ex_nolog)
             \<and> info_markup_start ex_nolog = info_markup_start ex_nolog
         \<or> print_log ex_nolog 0 ''upnp'' ''hello'' = Log_info ex_nolog ''upnp'' ''hello''
             \<and> 0 \<le> log_fd ex_nolog
             \<and> info_markup_start ex_nolog = info_markup_start ex_nolog"
    using p1 by simp
  have h1: "trailing_newlines ''hello'' \<le> 1"
    by (simp add: ex_eq op_eval)
  have h2: "fd_lookup (os ex_files) (log_target ex_files) = Some ''gmrender.log''"
    by (simp add: ex_eq op_eval)
  have h3: "log_line ex_files (error_markup_start ex_files) ''upnp'' ''hello''
              = ''ERROR [2023-11-14 22:13:20 | upnp] hello'' @ [nl]"
    by (simp add: ex_eq op_eval)
  have h4: "bytes (os ex_files) ''gmrender.log'' = []"
    by (simp add: ex_eq op_eval)
  have g1: "trailing_newlines (''hello'' @ [nl]) \<le> 1"
    by (simp add: ex_eq op_eval)
  have g2: "0 \<le> log_fd ex_files"
    by (simp add: ex_eq op_eval)
  have g3: "log_line ex_files (info_markup_start ex_files) ''upnp'' (''hello'' @ [nl])
              = ''INFO  [2023-11-14 22:13:20 | upnp] hello'' @ [nl]"
    by (simp add: ex_eq op_eval)
  have d: "Log_error ex_files ''upnp'' ''hello'' = Log_error ex_files ''upnp'' ''hello''
             \<and> error_markup_start ex_files = error_markup_start ex_files
         \<or> Log_error ex_files ''upnp'' ''hello'' = print_log ex_files 0 ''upnp'' ''hello''
             \<and> 0 \<le> debug_level (os ex_files)
             \<and> error_markup_start ex_files = info_markup_start ex_files
         \<or> Log_error ex_files ''upnp'' ''hello'' = Log_info ex_files ''upnp'' ''hello''
             \<and> 0 \<le> log_fd ex_files
             \<and> error_markup_start ex_files = info_markup_start ex_files"
    by simp
  have e: "Log_info ex_files ''upnp'' (''hello'' @ [nl]) = Log_error ex_files ''upnp'' (''hello'' @ [nl])
             \<and> info_markup_start ex_files = error_markup_start ex_files
         \<or> Log_info ex_files ''upnp'' (''hello'' @ [nl]) = print_log ex_files 0 ''upnp'' (''hello'' @ [nl])
             \<and> 0 \<le> debug_level (os ex_files)
             \<and> info_markup_start ex_files = info_markup_start ex_files
         \<or> Log_info ex_files ''upnp'' (''hello'' @ [nl]) = Log_info ex_files ''upnp'' (''hello'' @ [nl])
             \<and> 0 \<le> log_fd ex_files
             \<and> info_markup_start ex_files = info_markup_start ex_files"
    using g2 by simp
  note a = log_line_ends_with_one_newline [OF h1 h2 d]
  note b = log_line_ends_with_one_newline [OF g1 h2 e]
  have a1: "bytes (os (Log_error ex_files ''upnp'' ''hello'')) ''gmrender.log''
             = ''ERROR [2023-11-14 22:13:20 | upnp] hello'' @ [nl]"
    using a [THEN conjunct1] by (simp only: h3 h4 append_Nil)
  have a2: "trailing_newlines (''ERROR [2023-11-14 22:13:20 | upnp] hello'' @ [nl]) = 1"
    using a [THEN conjunct2, THEN conjunct1] by (simp only: h3)
  have b1: "bytes (os (Log_info ex_files ''upnp'' (''hello'' @ [nl]))) ''gmrender.log''
             = ''INFO  [2023-11-14 22:13:20 | upnp] hello'' @ [nl]"
    using b [THEN conjunct1] by (simp only: g3 h4 append_Nil)
  have c1: "bytes (os (print_log ex_nolog 0 ''upnp'' ''hello'')) ''stderr''
             = ''INFO  [2023-11-14 22:13:20 | upnp] hello'' @ [nl]"
    using log_line_ends_with_one_newline [OF h1 p2 f, THEN conjunct1]
    by (simp only: p3 p4 append_Nil)
  from h1 h2 a1 a2 g1 g2 b1 p1 p2 c1 show ?thesis
    by (simp only: simp_thms)
qed

section \<open>The operations change nothing but the bytes of files\<close>

lemma sys_write_only_bytes: "sys_write k fd buf = k\<lparr>bytes := bytes (sys_write k fd buf)\<rparr>"
  by (simp add: sys_write_def split: option.splits)

lemma sys_ftruncate_only_bytes: "sys_ftruncate k fd = k\<lparr>bytes := bytes (sys_ftruncate k fd)\<rparr>"
  by (simp add: sys_ftruncate_def split: option.splits)

lemma only_bytes_trans:
  assumes "s1 = s\<lparr>os := (os s)\<lparr>bytes := b1\<rparr>\<rparr>" and "s2 = s1\<lparr>os := (os s1)\<lparr>bytes := b2\<rparr>\<rparr>"
  shows "s2 = s\<lparr>os := (os s)\<lparr>bytes := bytes (os s2)\<rparr>\<rparr>"
  using assms by simp

lemma Log_internal_only_bytes:
  "Log_internal s fd markup category msg
     = s\<lparr>os := (os s)\<lparr>bytes := bytes (os (Log_internal s fd markup category msg))\<rparr>\<rparr>"
proof -
  have "Log_internal s fd markup category msg
      = s\<lparr>os := os (Log_internal s fd markup category msg)\<rparr>"
    by (simp add: Log_internal_def Let_def)
  also have "os (Log_internal s fd markup category msg)
      = (os s)\<lparr>bytes := bytes (os (Log_internal s fd markup category msg))\<rparr>"
    unfolding Log_internal_os by (rule sys_write_only_bytes)
  finally show ?thesis .
qed

lemma Log_info_only_bytes:
  "Log_info s category msg = s\<lparr>os := (os s)\<lparr>bytes := bytes (os (Log_info s category msg))\<rparr>\<rparr>"
  using Log_internal_only_bytes [of s "log_fd s" "info_markup_start s" category msg]
  by (simp add: Log_info_def)

lemma Log_error_only_bytes:
  "Log_error s category msg = s\<lparr>os := (os s)\<lparr>bytes := bytes (os (Log_error s category msg))\<rparr>\<rparr>"
  unfolding Log_error_def by (rule Log_internal_only_bytes)

lemma print_log_only_bytes:
  "print_log s level category msg
     = s\<lparr>os := (os s)\<lparr>bytes := bytes (os (print_log s level category msg))\<rparr>\<rparr>"
proof (cases "level > debug_level (os s)")
  case True
  then show ?thesis by (simp add: print_log_def)
next
  case False
  then have "print_log s level category msg
      = Log_internal s (if log_fd s < 0 then STDERR_FILENO else log_fd s)
          (info_markup_start s) category msg"
    by (simp add: print_log_def)
  then show ?thesis
    using Log_internal_only_bytes by simp
qed

lemma truncate_write_only_bytes:
  "sys_write (sys_ftruncate k fd) fd buf
     = k\<lparr>bytes := bytes (sys_write (sys_ftruncate k fd) fd buf)\<rparr>"
proof -
  have "sys_write (sys_ftruncate k fd) fd buf
      = (sys_ftruncate k fd)\<lparr>bytes := bytes (sys_write (sys_ftruncate k fd) fd buf)\<rparr>"
    by (rule sys_write_only_bytes)
  also have "\<dots> = (k\<lparr>bytes := bytes (sys_ftruncate k fd)\<rparr>)
      \<lparr>bytes := bytes (sys_write (sys_ftruncate k fd) fd buf)\<rparr>"
    using sys_ftruncate_only_bytes [of k fd] by simp
  finally show ?thesis by simp
qed

lemma log_last_playback_only_bytes:
  assumes "log_last_playback s playstart = Some s'"
  shows "s' = s\<lparr>os := (os s)\<lparr>bytes := bytes (os s')\<rparr>\<rparr>"
proof -
  from assms obtain ts where "gmtime_FT (os s) playstart = Some ts"
    by (auto simp add: log_last_playback_def split: option.splits)
  with assms have "s' = s\<lparr>os := sys_write (sys_ftruncate (os s) (last_played_fd s))
      (last_played_fd s) (last_played_line ts)\<rparr>"
    by (simp add: log_last_playback_def Let_def)
  then show ?thesis
    using truncate_write_only_bytes [of "os s" "last_played_fd s" "last_played_line ts"]
    by simp
qed

lemma log_playback_duration_only_bytes:
  assumes "log_playback_duration s playstart playend = Some s'"
  shows "s' = s\<lparr>os := (os s)\<lparr>bytes := bytes (os s')\<rparr>\<rparr>"
proof -
  from assms obtain r where r: "int_of_double (os s) (difftime playend playstart) = Some r"
    by (auto simp add: log_playback_duration_def split: option.splits)
  define k1 where "k1 = sys_write (sys_ftruncate (os s) (playback_fd s)) (playback_fd s) (total_line r)"
  have s1: "s\<lparr>os := k1\<rparr> = s\<lparr>os := (os s)\<lparr>bytes := bytes k1\<rparr>\<rparr>"
    unfolding k1_def using truncate_write_only_bytes [of "os s" "playback_fd s"] by simp
  from assms r have s': "s' = print_log (s\<lparr>os := k1\<rparr>) 0 ''transport''
      (total_playing_time (r sdiv 3600) ((r sdiv 60) smod 60) (r smod 60))"
    by (simp add: log_playback_duration_def Let_def k1_def)
  have "s' = (s\<lparr>os := k1\<rparr>)\<lparr>os := (os (s\<lparr>os := k1\<rparr>))\<lparr>bytes := bytes (os s')\<rparr>\<rparr>"
    unfolding s' by (rule print_log_only_bytes)
  with s1 show ?thesis
    by (rule only_bytes_trans)
qed

lemma step_only_bytes:
  assumes "step s c = Some s'"
  shows "s' = s\<lparr>os := (os s)\<lparr>bytes := bytes (os s')\<rparr>\<rparr>"
proof (cases c)
  case (Call_Log_info category msg)
  with assms show ?thesis using Log_info_only_bytes [of s category msg] by auto
next
  case (Call_Log_error category msg)
  with assms show ?thesis using Log_error_only_bytes [of s category msg] by auto
next
  case (Call_print_log level category msg)
  with assms show ?thesis using print_log_only_bytes [of s level category msg] by auto
next
  case (Call_log_last_playback playstart)
  with assms show ?thesis using log_last_playback_only_bytes [of s playstart s'] by auto
next
  case (Call_log_playback_duration playstart playend)
  with assms show ?thesis
    using log_playback_duration_only_bytes [of s playstart playend s'] by auto
qed

lemma run_only_bytes:
  "run s cs = Some s' \<Longrightarrow> s' = s\<lparr>os := (os s)\<lparr>bytes := bytes (os s')\<rparr>\<rparr>"
proof (induction cs arbitrary: s)
  case Nil
  then show ?case by simp
next
  case (Cons c cs)
  from Cons.prems obtain s1 where s1: "step s c = Some s1" and rest: "run s1 cs = Some s'"
    by (auto split: option.splits)
  from step_only_bytes [OF s1] Cons.IH [OF rest] show ?case
    by (rule only_bytes_trans)
qed

lemma fd_lookup_bytes_update [simp]: "fd_lookup (k\<lparr>bytes := b\<rparr>) = fd_lookup k"
  by (rule ext) (simp add: fd_lookup_def)

lemma run_keeps:
  assumes "run s cs = Some s'"
  shows "log_fd s' = log_fd s" and "last_played_fd s' = last_played_fd s"
    and "playback_fd s' = playback_fd s" and "enable_color s' = enable_color s"
    and "info_markup_start s' = info_markup_start s"
    and "error_markup_start s' = error_markup_start s" and "markup_end s' = markup_end s"
    and "fd_lookup (os s') = fd_lookup (os s)" and "terminal (os s') = terminal (os s)"
    and "localtime_FT (os s') = localtime_FT (os s)" and "clock (os s') = clock (os s)"
    and "debug_level (os s') = debug_level (os s)"
proof -
  define b where "b = bytes (os s')"
  have eq: "s' = s\<lparr>os := (os s)\<lparr>bytes := b\<rparr>\<rparr>"
    unfolding b_def using assms by (rule run_only_bytes)
  show "log_fd s' = log_fd s" by (simp add: eq)
  show "last_played_fd s' = last_played_fd s" by (simp add: eq)
  show "playback_fd s' = playback_fd s" by (simp add: eq)
  show "enable_color s' = enable_color s" by (simp add: eq)
  show "info_markup_start s' = info_markup_start s" by (simp add: eq)
  show "error_markup_start s' = error_markup_start s" by (simp add: eq)
  show "markup_end s' = markup_end s" by (simp add: eq)
  show "fd_lookup (os s') = fd_lookup (os s)" by (simp add: eq)
  show "terminal (os s') = terminal (os s)" by (simp add: eq)
  show "localtime_FT (os s') = localtime_FT (os s)" by (simp add: eq)
  show "clock (os s') = clock (os s)" by (simp add: eq)
  show "debug_level (os s') = debug_level (os s)" by (simp add: eq)
qed

section \<open>Facts about the blocks of \<open>Log_init\<close>\<close>

lemma sys_open_neg_iff [simp]: "snd (sys_open k p) < 0 \<longleftrightarrow> open_err k p \<noteq> None"
  by (auto simp add: sys_open_def Let_def split: option.splits)

lemma fd_lookup_errno_update [simp]: "fd_lookup (k\<lparr>errno := e\<rparr>) = fd_lookup k"
  by (rule ext) (simp add: fd_lookup_def)

lemma perror_fields [simp]:
  "terminal (perror k msg) = terminal k"
  "open_err (perror k msg) = open_err k"
  by (simp_all add: perror_def)

text \<open>One block: what it leaves when \<open>open\<close> fails, and when it does not.\<close>

lemma open_log_file_vars [simp]:
  "last_played_fd (open_log_file s f) = last_played_fd s"
  "playback_fd (open_log_file s f) = playback_fd s"
  "enable_color (open_log_file s f) = enable_color s"
  "info_markup_start (open_log_file s f) = info_markup_start s"
  "error_markup_start (open_log_file s f) = error_markup_start s"
  "markup_end (open_log_file s f) = markup_end s"
  "open_err (os (open_log_file s f)) = open_err (os s)"
  "terminal (os (open_log_file s f)) = terminal (os s)"
  by (simp_all add: open_log_file_def split_beta split: option.splits)

lemma open_last_played_file_vars [simp]:
  "log_fd (open_last_played_file s f) = log_fd s"
  "playback_fd (open_last_played_file s f) = playback_fd s"
  "enable_color (open_last_played_file s f) = enable_color s"
  "info_markup_start (open_last_played_file s f) = info_markup_start s"
  "error_markup_start (open_last_played_file s f) = error_markup_start s"
  "markup_end (open_last_played_file s f) = markup_end s"
  "open_err (os (open_last_played_file s f)) = open_err (os s)"
  "terminal (os (open_last_played_file s f)) = terminal (os s)"
  by (simp_all add: open_last_played_file_def split_beta split: option.splits)

lemma open_playback_time_file_vars [simp]:
  "log_fd (open_playback_time_file s f) = log_fd s"
  "last_played_fd (open_playback_time_file s f) = last_played_fd s"
  "enable_color (open_playback_time_file s f) = enable_color s"
  "info_markup_start (open_playback_time_file s f) = info_markup_start s"
  "error_markup_start (open_playback_time_file s f) = error_markup_start s"
  "markup_end (open_playback_time_file s f) = markup_end s"
  "open_err (os (open_playback_time_file s f)) = open_err (os s)"
  "terminal (os (open_playback_time_file s f)) = terminal (os s)"
  by (simp_all add: open_playback_time_file_def split_beta split: option.splits)

lemma open_log_file_neg_iff:
  "f \<noteq> None \<and> log_fd (open_log_file s f) < 0 \<longleftrightarrow> open_fails (os s) f"
  by (cases f) (auto simp add: open_log_file_def open_fails_def split_beta)

lemma open_last_played_file_neg_iff:
  "f \<noteq> None \<and> last_played_fd (open_last_played_file s f) < 0 \<longleftrightarrow> open_fails (os s) f"
  by (cases f) (auto simp add: open_last_played_file_def open_fails_def split_beta)

lemma open_playback_time_file_neg_iff:
  "f \<noteq> None \<and> playback_fd (open_playback_time_file s f) < 0 \<longleftrightarrow> open_fails (os s) f"
  by (cases f) (auto simp add: open_playback_time_file_def open_fails_def split_beta)

lemma open_log_file_failed:
  "open_fails (os s) f \<Longrightarrow> log_fd (open_log_file s f) = - 1"
  by (auto simp add: open_log_file_def open_fails_def split_beta sys_open_fd_neg
      split: option.splits)

lemma open_last_played_file_failed:
  "open_fails (os s) f \<Longrightarrow> last_played_fd (open_last_played_file s f) = - 1"
  by (auto simp add: open_last_played_file_def open_fails_def split_beta sys_open_fd_neg
      split: option.splits)

lemma open_playback_time_file_failed:
  "open_fails (os s) f \<Longrightarrow> playback_fd (open_playback_time_file s f) = - 1"
  by (auto simp add: open_playback_time_file_def open_fails_def split_beta sys_open_fd_neg
      split: option.splits)

lemma open_log_file_opened:
  "\<not> open_fails (os s) f \<Longrightarrow> log_fd s = - 1 \<Longrightarrow>
   opened (open_log_file s f) (log_fd (open_log_file s f)) f"
  by (auto simp add: open_log_file_def open_fails_def opened_def split_beta
      sys_open_fd_nonneg sys_open_lookup_new split: option.splits)

lemma open_last_played_file_opened:
  "\<not> open_fails (os s) f \<Longrightarrow> last_played_fd s = - 1 \<Longrightarrow>
   opened (open_last_played_file s f) (last_played_fd (open_last_played_file s f)) f"
  by (auto simp add: open_last_played_file_def open_fails_def opened_def split_beta
      sys_open_fd_nonneg sys_open_lookup_new split: option.splits)

lemma open_playback_time_file_opened:
  "\<not> open_fails (os s) f \<Longrightarrow> playback_fd s = - 1 \<Longrightarrow>
   opened (open_playback_time_file s f) (playback_fd (open_playback_time_file s f)) f"
  by (auto simp add: open_playback_time_file_def open_fails_def opened_def split_beta
      sys_open_fd_nonneg sys_open_lookup_new split: option.splits)

text \<open>A later block, and \<open>perror\<close>, keep what an earlier block has opened.\<close>

lemma open_last_played_file_keeps:
  "fd_lookup (os s) fd = Some d \<Longrightarrow> fd_lookup (os (open_last_played_file s f)) fd = Some d"
  by (auto simp add: open_last_played_file_def split_beta sys_open_lookup_old split: option.splits)

lemma open_playback_time_file_keeps:
  "fd_lookup (os s) fd = Some d \<Longrightarrow> fd_lookup (os (open_playback_time_file s f)) fd = Some d"
  by (auto simp add: open_playback_time_file_def split_beta sys_open_lookup_old split: option.splits)

section \<open>What \<open>Log_init\<close> leaves behind\<close>

lemma open_fails_after_blocks [simp]:
  "open_fails (os (open_log_file s g)) f = open_fails (os s) f"
  "open_fails (os (open_last_played_file s g)) f = open_fails (os s) f"
  "open_fails (os (open_playback_time_file s g)) f = open_fails (os s) f"
  by (simp_all add: open_fails_def split: option.splits)

lemma Log_init_eq:
  "Log_init s filename lp pb =
     (let s1 = open_log_file s filename;
          s2 = open_last_played_file s1 lp;
          s3 = open_playback_time_file s2 pb;
          s4 = s3\<lparr>enable_color := sys_isatty (os s3) (log_fd s3)\<rparr>
      in if open_fails (os s) filename then s1\<lparr>os := perror (os s1) ''Cannot open logfile''\<rparr>
         else if open_fails (os s) lp
         then s2\<lparr>os := perror (os s2) ''Cannot open last played file''\<rparr>
         else if open_fails (os s) pb
         then s3\<lparr>os := perror (os s3) ''Cannot open playback time file''\<rparr>
         else if sys_isatty (os s3) (log_fd s3) \<noteq> 0
         then s4\<lparr>info_markup_start := kInfoHighlight,
                 error_markup_start := kErrorHighlight,
                 markup_end := kTermReset\<rparr>
         else s4)"
proof -
  have a: "(filename \<noteq> None \<and> log_fd (open_log_file s filename) < 0) = open_fails (os s) filename"
    by (rule open_log_file_neg_iff)
  have b: "(lp \<noteq> None \<and> last_played_fd (open_last_played_file (open_log_file s filename) lp) < 0)
      = open_fails (os s) lp"
    using open_last_played_file_neg_iff [of lp "open_log_file s filename"] by simp
  have c: "(pb \<noteq> None \<and> playback_fd (open_playback_time_file
              (open_last_played_file (open_log_file s filename) lp) pb) < 0)
      = open_fails (os s) pb"
    using open_playback_time_file_neg_iff
      [of pb "open_last_played_file (open_log_file s filename) lp"] by simp
  show ?thesis
    unfolding Log_init_def Let_def a b c by simp
qed

lemma opened_perror [simp]: "opened (s\<lparr>os := perror (os s) msg\<rparr>) fd f = opened s fd f"
  by (simp add: opened_def split: option.splits)

lemma opened_after_last_played:
  "opened s fd f \<Longrightarrow> opened (open_last_played_file s g) fd f"
  by (auto simp add: opened_def open_last_played_file_keeps split: option.splits)

lemma opened_after_playback:
  "opened s fd f \<Longrightarrow> opened (open_playback_time_file s g) fd f"
  by (auto simp add: opened_def open_playback_time_file_keeps split: option.splits)

lemma opened_color [simp]:
  "opened (s\<lparr>enable_color := c\<rparr>) fd f = opened s fd f"
  "opened (s\<lparr>info_markup_start := a\<rparr>) fd f = opened s fd f"
  "opened (s\<lparr>error_markup_start := a\<rparr>) fd f = opened s fd f"
  "opened (s\<lparr>markup_end := a\<rparr>) fd f = opened s fd f"
  by (simp_all add: opened_def split: option.splits)

lemma initial_fields [simp]:
  "log_fd (initial k) = - 1" "last_played_fd (initial k) = - 1" "playback_fd (initial k) = - 1"
  "enable_color (initial k) = 0" "info_markup_start (initial k) = ''INFO  ''"
  "error_markup_start (initial k) = ''ERROR ''" "markup_end (initial k) = ''''"
  "os (initial k) = k"
  by (simp_all add: initial_def)

lemma Log_init_log_fails:
  assumes "open_fails k filename"
  shows "log_fd (Log_init (initial k) filename lp pb) = - 1"
    and "last_played_fd (Log_init (initial k) filename lp pb) = - 1"
    and "playback_fd (Log_init (initial k) filename lp pb) = - 1"
  using assms by (simp_all add: Log_init_eq Let_def open_log_file_failed)

lemma Log_init_lp_fails:
  assumes "\<not> open_fails k filename" and "open_fails k lp"
  shows "opened (Log_init (initial k) filename lp pb)
           (log_fd (Log_init (initial k) filename lp pb)) filename"
    and "last_played_fd (Log_init (initial k) filename lp pb) = - 1"
    and "playback_fd (Log_init (initial k) filename lp pb) = - 1"
proof -
  let ?s1 = "open_log_file (initial k) filename"
  let ?s2 = "open_last_played_file ?s1 lp"
  have eq: "Log_init (initial k) filename lp pb
      = ?s2\<lparr>os := perror (os ?s2) ''Cannot open last played file''\<rparr>"
    using assms by (simp add: Log_init_eq Let_def)
  have "opened ?s1 (log_fd ?s1) filename"
    using assms(1) by (simp add: open_log_file_opened)
  then have "opened ?s2 (log_fd ?s1) filename"
    by (rule opened_after_last_played)
  then show "opened (Log_init (initial k) filename lp pb)
           (log_fd (Log_init (initial k) filename lp pb)) filename"
    by (simp add: eq)
  show "last_played_fd (Log_init (initial k) filename lp pb) = - 1"
    using assms(2) by (simp add: eq open_last_played_file_failed)
  show "playback_fd (Log_init (initial k) filename lp pb) = - 1"
    by (simp add: eq)
qed

lemma Log_init_pb_fails:
  assumes "\<not> open_fails k filename" and "\<not> open_fails k lp" and "open_fails k pb"
  shows "opened (Log_init (initial k) filename lp pb)
           (log_fd (Log_init (initial k) filename lp pb)) filename"
    and "opened (Log_init (initial k) filename lp pb)
           (last_played_fd (Log_init (initial k) filename lp pb)) lp"
    and "playback_fd (Log_init (initial k) filename lp pb) = - 1"
proof -
  let ?s1 = "open_log_file (initial k) filename"
  let ?s2 = "open_last_played_file ?s1 lp"
  let ?s3 = "open_playback_time_file ?s2 pb"
  have eq: "Log_init (initial k) filename lp pb
      = ?s3\<lparr>os := perror (os ?s3) ''Cannot open playback time file''\<rparr>"
    using assms by (simp add: Log_init_eq Let_def)
  have "opened ?s1 (log_fd ?s1) filename"
    using assms(1) by (simp add: open_log_file_opened)
  then have "opened ?s3 (log_fd ?s1) filename"
    by (intro opened_after_playback opened_after_last_played)
  then show "opened (Log_init (initial k) filename lp pb)
           (log_fd (Log_init (initial k) filename lp pb)) filename"
    by (simp add: eq)
  have "opened ?s2 (last_played_fd ?s2) lp"
    using assms(2) by (simp add: open_last_played_file_opened)
  then have "opened ?s3 (last_played_fd ?s2) lp"
    by (rule opened_after_playback)
  then show "opened (Log_init (initial k) filename lp pb)
           (last_played_fd (Log_init (initial k) filename lp pb)) lp"
    by (simp add: eq)
  show "playback_fd (Log_init (initial k) filename lp pb) = - 1"
    using assms(3) by (simp add: eq open_playback_time_file_failed)
qed

lemma Log_init_all_open:
  assumes "\<not> open_fails k filename" and "\<not> open_fails k lp" and "\<not> open_fails k pb"
  shows "opened (Log_init (initial k) filename lp pb)
           (log_fd (Log_init (initial k) filename lp pb)) filename"
    and "opened (Log_init (initial k) filename lp pb)
           (last_played_fd (Log_init (initial k) filename lp pb)) lp"
    and "opened (Log_init (initial k) filename lp pb)
           (playback_fd (Log_init (initial k) filename lp pb)) pb"
proof -
  let ?s1 = "open_log_file (initial k) filename"
  let ?s2 = "open_last_played_file ?s1 lp"
  let ?s3 = "open_playback_time_file ?s2 pb"
  have a: "opened ?s3 (log_fd ?s1) filename"
    using assms(1) by (intro opened_after_playback opened_after_last_played)
      (simp add: open_log_file_opened)
  have b: "opened ?s3 (last_played_fd ?s2) lp"
    using assms(2) by (intro opened_after_playback) (simp add: open_last_played_file_opened)
  have c: "opened ?s3 (playback_fd ?s3) pb"
    using assms(3) by (simp add: open_playback_time_file_opened)
  show "opened (Log_init (initial k) filename lp pb)
           (log_fd (Log_init (initial k) filename lp pb)) filename"
    using assms a by (simp add: Log_init_eq Let_def)
  show "opened (Log_init (initial k) filename lp pb)
           (last_played_fd (Log_init (initial k) filename lp pb)) lp"
    using assms b by (simp add: Log_init_eq Let_def)
  show "opened (Log_init (initial k) filename lp pb)
           (playback_fd (Log_init (initial k) filename lp pb)) pb"
    using assms c by (simp add: Log_init_eq Let_def)
qed

lemma isatty_opened:
  "opened s fd f \<Longrightarrow> sys_isatty (os s) fd = (if log_is_terminal (os s) f then 1 else 0)"
  by (auto simp add: opened_def sys_isatty_def log_is_terminal_def fd_lookup_neg
      split: option.splits)

lemma log_is_terminal_after_blocks [simp]:
  "log_is_terminal (os (open_log_file s g)) f = log_is_terminal (os s) f"
  "log_is_terminal (os (open_last_played_file s g)) f = log_is_terminal (os s) f"
  "log_is_terminal (os (open_playback_time_file s g)) f = log_is_terminal (os s) f"
  by (simp_all add: log_is_terminal_def split: option.splits)

lemma Log_init_plain_on_failure:
  assumes "open_fails k filename \<or> open_fails k lp \<or> open_fails k pb"
  shows "enable_color (Log_init (initial k) filename lp pb) = 0"
    and "info_markup_start (Log_init (initial k) filename lp pb) = ''INFO  ''"
    and "error_markup_start (Log_init (initial k) filename lp pb) = ''ERROR ''"
    and "markup_end (Log_init (initial k) filename lp pb) = ''''"
  using assms by (auto simp add: Log_init_eq Let_def)

lemma Log_init_isatty:
  assumes "\<not> open_fails k filename" and "\<not> open_fails k lp" and "\<not> open_fails k pb"
  shows "sys_isatty
           (os (open_playback_time_file
                  (open_last_played_file (open_log_file (initial k) filename) lp) pb))
           (log_fd (open_log_file (initial k) filename))
         = (if log_is_terminal k filename then 1 else 0)"
proof -
  let ?s1 = "open_log_file (initial k) filename"
  let ?s3 = "open_playback_time_file (open_last_played_file ?s1 lp) pb"
  have "opened ?s3 (log_fd ?s1) filename"
    using assms(1) by (intro opened_after_playback opened_after_last_played)
      (simp add: open_log_file_opened)
  from isatty_opened [OF this] show ?thesis by simp
qed

lemma Log_init_color_on_success:
  assumes "\<not> open_fails k filename" and "\<not> open_fails k lp" and "\<not> open_fails k pb"
  shows "enable_color (Log_init (initial k) filename lp pb)
           = (if log_is_terminal k filename then 1 else 0)"
    and "info_markup_start (Log_init (initial k) filename lp pb)
           = (if log_is_terminal k filename then kInfoHighlight else ''INFO  '')"
    and "error_markup_start (Log_init (initial k) filename lp pb)
           = (if log_is_terminal k filename then kErrorHighlight else ''ERROR '')"
    and "markup_end (Log_init (initial k) filename lp pb)
           = (if log_is_terminal k filename then kTermReset else '''')"
  using assms Log_init_isatty [OF assms] by (simp_all add: Log_init_eq Let_def)

lemma Log_init_log_fd_neg_iff:
  "log_fd (Log_init (initial k) filename lp pb) < 0 \<longleftrightarrow> filename = None \<or> open_fails k filename"
proof (cases "open_fails k filename")
  case True
  then show ?thesis by (simp add: Log_init_log_fails)
next
  case False
  have "log_fd (Log_init (initial k) filename lp pb) = log_fd (open_log_file (initial k) filename)"
    using False by (simp add: Log_init_eq Let_def)
  moreover have "opened (open_log_file (initial k) filename)
      (log_fd (open_log_file (initial k) filename)) filename"
    using False by (simp add: open_log_file_opened)
  ultimately show ?thesis
    using False by (auto simp add: opened_def split: option.splits)
qed

section \<open>Failures of \<open>open\<close> in \<open>Log_init\<close>\<close>

text \<open>
  Claim C1, as the code has it. \<open>Log_init\<close>, run on the initial state, opens the
  destinations in the order log file, last-played file, playback-time file, and
  returns at the first \<open>open\<close> that fails. The destination that failed and every later
  one are left unconfigured (\<open>-1\<close>), also where a path was given and could be opened;
  every destination before the failing one is configured as if nothing had failed;
  when no \<open>open\<close> fails, all three are.
\<close>

theorem Log_init_stops_at_first_failure:
  assumes "s = Log_init (initial k) filename last_played_file playback_time_file"
  shows "(open_fails k filename \<longrightarrow>
            log_fd s = - 1 \<and> last_played_fd s = - 1 \<and> playback_fd s = - 1)
       \<and> (\<not> open_fails k filename \<and> open_fails k last_played_file \<longrightarrow>
            opened s (log_fd s) filename \<and> last_played_fd s = - 1 \<and> playback_fd s = - 1)
       \<and> (\<not> open_fails k filename \<and> \<not> open_fails k last_played_file
            \<and> open_fails k playback_time_file \<longrightarrow>
            opened s (log_fd s) filename \<and> opened s (last_played_fd s) last_played_file
            \<and> playback_fd s = - 1)
       \<and> (\<not> open_fails k filename \<and> \<not> open_fails k last_played_file
            \<and> \<not> open_fails k playback_time_file \<longrightarrow>
            opened s (log_fd s) filename \<and> opened s (last_played_fd s) last_played_file
            \<and> opened s (playback_fd s) playback_time_file)"
  unfolding assms
  by (intro conjI impI; (elim conjE)?)
    (simp_all add: Log_init_log_fails Log_init_lp_fails Log_init_pb_fails Log_init_all_open)

text \<open>
  The claim as the specification states it (a failing destination leaves the others to
  be opened) fails: when the log file cannot be opened, the last-played file and the
  playback-time file are not opened, although \<open>open\<close> would succeed on both.
\<close>

theorem Log_init_failure_blocks_later_destinations:
  "open_fails example_sys (Some ''/nope'')
   \<and> \<not> open_fails example_sys (Some ''last_played'')
   \<and> \<not> open_fails example_sys (Some ''playback_time'')
   \<and> ex_logfail = Log_init (initial example_sys)
        (Some ''/nope'') (Some ''last_played'') (Some ''playback_time'')
   \<and> \<not> opened ex_logfail (last_played_fd ex_logfail) (Some ''last_played'')
   \<and> \<not> opened ex_logfail (playback_fd ex_logfail) (Some ''playback_time'')
   \<and> last_played_fd ex_logfail = - 1
   \<and> playback_fd ex_logfail = - 1"
proof -
  have "open_fails example_sys (Some ''/nope'')" by (simp add: ex_eq op_eval)
  moreover have "\<not> open_fails example_sys (Some ''last_played'')" by (simp add: ex_eq op_eval)
  moreover have "\<not> open_fails example_sys (Some ''playback_time'')" by (simp add: ex_eq op_eval)
  moreover have "\<not> opened ex_logfail (last_played_fd ex_logfail) (Some ''last_played'')"
    by (simp add: ex_eq op_eval)
  moreover have "\<not> opened ex_logfail (playback_fd ex_logfail) (Some ''playback_time'')"
    by (simp add: ex_eq op_eval)
  moreover have "last_played_fd ex_logfail = - 1" by (simp add: ex_eq op_eval)
  moreover have "playback_fd ex_logfail = - 1" by (simp add: ex_eq op_eval)
  ultimately show ?thesis
    by (simp only: ex_logfail_def simp_thms)
qed

text \<open>The four cases of the theorem, in the example environment.\<close>

theorem Log_init_stops_at_first_failure_witness:
  "open_fails example_sys (Some ''/nope'')
   \<and> log_fd ex_logfail = - 1 \<and> last_played_fd ex_logfail = - 1 \<and> playback_fd ex_logfail = - 1
   \<and> \<not> open_fails example_sys (Some ''/dev/tty'')
   \<and> opened ex_lpfail (log_fd ex_lpfail) (Some ''/dev/tty'')
   \<and> last_played_fd ex_lpfail = - 1 \<and> playback_fd ex_lpfail = - 1
   \<and> \<not> open_fails example_sys (Some ''last_played'')
   \<and> opened ex_pbfail (log_fd ex_pbfail) (Some ''/dev/tty'')
   \<and> opened ex_pbfail (last_played_fd ex_pbfail) (Some ''last_played'')
   \<and> playback_fd ex_pbfail = - 1
   \<and> \<not> open_fails example_sys (Some ''gmrender.log'')
   \<and> \<not> open_fails example_sys (Some ''playback_time'')
   \<and> opened ex_files (log_fd ex_files) (Some ''gmrender.log'')
   \<and> opened ex_files (last_played_fd ex_files) (Some ''last_played'')
   \<and> opened ex_files (playback_fd ex_files) (Some ''playback_time'')"
proof -
  have f: "open_fails example_sys (Some ''/nope'')" by (simp add: ex_eq op_eval)
  have t: "\<not> open_fails example_sys (Some ''/dev/tty'')" by (simp add: ex_eq op_eval)
  have l: "\<not> open_fails example_sys (Some ''last_played'')" by (simp add: ex_eq op_eval)
  have g: "\<not> open_fails example_sys (Some ''gmrender.log'')" by (simp add: ex_eq op_eval)
  have p: "\<not> open_fails example_sys (Some ''playback_time'')" by (simp add: ex_eq op_eval)
  note a = Log_init_stops_at_first_failure [OF ex_logfail_def]
  note b = Log_init_stops_at_first_failure [OF ex_lpfail_def]
  note c = Log_init_stops_at_first_failure [OF ex_pbfail_def]
  note d = Log_init_stops_at_first_failure [OF ex_files_def]
  from a f have a': "log_fd ex_logfail = - 1 \<and> last_played_fd ex_logfail = - 1
      \<and> playback_fd ex_logfail = - 1"
    by blast
  from b t f have b': "opened ex_lpfail (log_fd ex_lpfail) (Some ''/dev/tty'')
      \<and> last_played_fd ex_lpfail = - 1 \<and> playback_fd ex_lpfail = - 1"
    by blast
  from c t l f have c': "opened ex_pbfail (log_fd ex_pbfail) (Some ''/dev/tty'')
      \<and> opened ex_pbfail (last_played_fd ex_pbfail) (Some ''last_played'')
      \<and> playback_fd ex_pbfail = - 1"
    by blast
  from d g l p have d': "opened ex_files (log_fd ex_files) (Some ''gmrender.log'')
      \<and> opened ex_files (last_played_fd ex_files) (Some ''last_played'')
      \<and> opened ex_files (playback_fd ex_files) (Some ''playback_time'')"
    by blast
  from f t l g p a' b' c' d' show ?thesis
    by (simp only: simp_thms)
qed

section \<open>The colour flag and the markup strings\<close>

lemma sys_open_clock [simp]:
  "clock (fst (sys_open k p)) = clock k"
  "localtime_FT (fst (sys_open k p)) = localtime_FT k"
  by (simp_all add: sys_open_def Let_def split: option.splits)

lemma blocks_clock [simp]:
  "clock (os (open_log_file s f)) = clock (os s)"
  "localtime_FT (os (open_log_file s f)) = localtime_FT (os s)"
  "clock (os (open_last_played_file s f)) = clock (os s)"
  "localtime_FT (os (open_last_played_file s f)) = localtime_FT (os s)"
  "clock (os (open_playback_time_file s f)) = clock (os s)"
  "localtime_FT (os (open_playback_time_file s f)) = localtime_FT (os s)"
  by (simp_all add: open_log_file_def open_last_played_file_def open_playback_time_file_def
      split_beta split: option.splits)

lemma perror_clock [simp]:
  "clock (perror k msg) = clock k"
  "localtime_FT (perror k msg) = localtime_FT k"
  by (simp_all add: perror_def)

lemma Log_init_env:
  "terminal (os (Log_init s filename lp pb)) = terminal (os s)"
  "clock (os (Log_init s filename lp pb)) = clock (os s)"
  "localtime_FT (os (Log_init s filename lp pb)) = localtime_FT (os s)"
  by (simp_all add: Log_init_eq Let_def)

lemma log_is_terminal_cong:
  "terminal k' = terminal k \<Longrightarrow> log_is_terminal k' f = log_is_terminal k f"
  by (simp add: log_is_terminal_def split: option.splits)

lemma opened_cong:
  "fd_lookup (os s') = fd_lookup (os s) \<Longrightarrow> opened s' fd f = opened s fd f"
  by (simp add: opened_def split: option.splits)

lemma Log_init_log_opened:
  assumes "\<not> open_fails k filename"
  shows "opened (Log_init (initial k) filename lp pb)
           (log_fd (Log_init (initial k) filename lp pb)) filename"
proof (cases "open_fails k lp")
  case True
  with assms show ?thesis by (rule Log_init_lp_fails)
next
  case False
  show ?thesis
  proof (cases "open_fails k pb")
    case True
    with assms False show ?thesis by (rule Log_init_pb_fails)
  next
    case nofail: False
    with assms False show ?thesis by (rule Log_init_all_open)
  qed
qed

lemma log_line_plain:
  assumes "info_markup_start s = ''INFO  ''" and "error_markup_start s = ''ERROR ''"
    and "markup_end s = ''''"
  shows "log_line s (info_markup_start s) category msg
           = ''INFO  ['' @ localtime_FT (os s) (clock (os s)) @ '' | '' @ category @ ''] ''
               @ msg @ (if msg \<noteq> [] \<and> last msg = nl then [] else [nl])"
    and "log_line s (error_markup_start s) category msg
           = ''ERROR ['' @ localtime_FT (os s) (clock (os s)) @ '' | '' @ category @ ''] ''
               @ msg @ (if msg \<noteq> [] \<and> last msg = nl then [] else [nl])"
  using assms by (simp_all add: log_line_def log_prefix_def)

text \<open>
  Claim C9. Let the log file be opened (or not asked for), and let \<open>open\<close> fail on the
  last-played file or on the playback-time file. Then after \<open>Log_init\<close> and any
  sequence of calls the colour flag is 0 and the markup strings are the plain ones, so
  that every log line has the plain prefix; the log file is still open, and this holds
  also when it is a terminal, where \<open>isatty\<close> on its descriptor gives 1.
\<close>

theorem color_stays_off_after_later_failure:
  assumes "\<not> open_fails k filename"
    and "open_fails k last_played_file \<or> open_fails k playback_time_file"
    and "run (Log_init (initial k) filename last_played_file playback_time_file) calls = Some s"
  shows "Log_color_allowed s = 0
       \<and> info_markup_start s = ''INFO  '' \<and> error_markup_start s = ''ERROR ''
       \<and> markup_end s = ''''
       \<and> opened s (log_fd s) filename
       \<and> sys_isatty (os s) (log_fd s) = (if log_is_terminal k filename then 1 else 0)
       \<and> log_line s (info_markup_start s) category msg
           = ''INFO  ['' @ localtime_FT k (clock k) @ '' | '' @ category @ ''] ''
               @ msg @ (if msg \<noteq> [] \<and> last msg = nl then [] else [nl])
       \<and> log_line s (error_markup_start s) category msg
           = ''ERROR ['' @ localtime_FT k (clock k) @ '' | '' @ category @ ''] ''
               @ msg @ (if msg \<noteq> [] \<and> last msg = nl then [] else [nl])"
proof -
  let ?s0 = "Log_init (initial k) filename last_played_file playback_time_file"
  note keep = run_keeps [OF assms(3)]
  from assms(2) have fail: "open_fails k filename \<or> open_fails k last_played_file
      \<or> open_fails k playback_time_file"
    by blast
  have c: "enable_color s = 0" and i: "info_markup_start s = ''INFO  ''"
    and e: "error_markup_start s = ''ERROR ''" and m: "markup_end s = ''''"
    using Log_init_plain_on_failure [OF fail] keep by simp_all
  have "opened ?s0 (log_fd ?s0) filename"
    using assms(1) by (rule Log_init_log_opened)
  then have o: "opened s (log_fd s) filename"
    by (simp add: opened_cong [OF keep(8)] keep(1))
  have t: "terminal (os s) = terminal k"
    using keep by (simp add: Log_init_env)
  have tty: "sys_isatty (os s) (log_fd s) = (if log_is_terminal k filename then 1 else 0)"
    using isatty_opened [OF o] log_is_terminal_cong [OF t] by simp
  have env: "localtime_FT (os s) (clock (os s)) = localtime_FT k (clock k)"
    using keep by (simp add: Log_init_env)
  from c i e m o tty log_line_plain [OF i e m, of category msg] env show ?thesis
    by (simp add: Log_color_allowed_def)
qed

text \<open>
  The theorem at work: the log file is the terminal \<open>/dev/tty\<close>, opened with success; in
  one run the last-played file cannot be opened, in the other the playback-time file;
  the colour flag is 0 although \<open>isatty\<close> gives 1 on the descriptor of the log.
\<close>

theorem color_stays_off_after_later_failure_witness:
  "\<not> open_fails example_sys (Some ''/dev/tty'')
   \<and> open_fails example_sys (Some ''/nope'')
   \<and> log_is_terminal example_sys (Some ''/dev/tty'')
   \<and> run ex_lpfail [Call_Log_error ''upnp'' ''hello'']
       = Some (Log_error ex_lpfail ''upnp'' ''hello'')
   \<and> Log_color_allowed (Log_error ex_lpfail ''upnp'' ''hello'') = 0
   \<and> sys_isatty (os (Log_error ex_lpfail ''upnp'' ''hello''))
         (log_fd (Log_error ex_lpfail ''upnp'' ''hello'')) = 1
   \<and> info_markup_start (Log_error ex_lpfail ''upnp'' ''hello'') = ''INFO  ''
   \<and> run ex_pbfail [] = Some ex_pbfail
   \<and> Log_color_allowed ex_pbfail = 0
   \<and> sys_isatty (os ex_pbfail) (log_fd ex_pbfail) = 1
   \<and> error_markup_start ex_pbfail = ''ERROR ''"
proof -
  have t: "\<not> open_fails example_sys (Some ''/dev/tty'')" by (simp add: ex_eq op_eval)
  have f: "open_fails example_sys (Some ''/nope'')" by (simp add: ex_eq op_eval)
  have tty: "log_is_terminal example_sys (Some ''/dev/tty'')" by (simp add: ex_eq op_eval)
  have r1: "run (Log_init (initial example_sys)
                  (Some ''/dev/tty'') (Some ''/nope'') (Some ''playback_time''))
              [Call_Log_error ''upnp'' ''hello'']
            = Some (Log_error ex_lpfail ''upnp'' ''hello'')"
    by (simp add: ex_lpfail_def)
  have r2: "run (Log_init (initial example_sys)
                  (Some ''/dev/tty'') (Some ''last_played'') (Some ''/nope'')) []
            = Some ex_pbfail"
    by (simp add: ex_pbfail_def)
  have d1: "open_fails example_sys (Some ''/nope'')
            \<or> open_fails example_sys (Some ''playback_time'')"
    using f by (rule disjI1)
  have d2: "open_fails example_sys (Some ''last_played'')
            \<or> open_fails example_sys (Some ''/nope'')"
    using f by (rule disjI2)
  note a = color_stays_off_after_later_failure [OF t d1 r1, of "''upnp''" "''hello''"]
  note b = color_stays_off_after_later_failure [OF t d2 r2, of "''upnp''" "''hello''"]
  from a tty have a': "Log_color_allowed (Log_error ex_lpfail ''upnp'' ''hello'') = 0
      \<and> sys_isatty (os (Log_error ex_lpfail ''upnp'' ''hello''))
            (log_fd (Log_error ex_lpfail ''upnp'' ''hello'')) = 1
      \<and> info_markup_start (Log_error ex_lpfail ''upnp'' ''hello'') = ''INFO  ''"
    by simp
  from b tty have b': "Log_color_allowed ex_pbfail = 0
      \<and> sys_isatty (os ex_pbfail) (log_fd ex_pbfail) = 1
      \<and> error_markup_start ex_pbfail = ''ERROR ''"
    by simp
  have r1': "run ex_lpfail [Call_Log_error ''upnp'' ''hello'']
      = Some (Log_error ex_lpfail ''upnp'' ''hello'')"
    by simp
  have r2': "run ex_pbfail [] = Some ex_pbfail"
    by simp
  from t f tty r1' r2' a' b' show ?thesis
    by (simp only: simp_thms)
qed



section \<open>The last-played file\<close>

lemma truncate_write_bytes:
  assumes "fd_lookup k fd = Some d" and "\<not> terminal k d"
  shows "bytes (sys_write (sys_ftruncate k fd) fd buf) = (bytes k)(d := buf)"
  using assms by (simp add: bytes_sys_write bytes_sys_ftruncate)

lemma log_last_playback_converted:
  "gmtime_FT (os s) t = Some ts \<Longrightarrow>
   log_last_playback s t
     = Some (s\<lparr>os := sys_write (sys_ftruncate (os s) (last_played_fd s)) (last_played_fd s)
                       (last_played_line ts)\<rparr>)"
  by (simp add: log_last_playback_def Let_def)

lemma log_last_playback_bytes:
  assumes "fd_lookup (os s) (last_played_fd s) = Some d" and "\<not> terminal (os s) d"
    and "gmtime_FT (os s) t = Some ts"
  shows "\<exists>s'. log_last_playback s t = Some s'
           \<and> bytes (os s') = (bytes (os s))(d := last_played_line ts)
           \<and> last_played_fd s' = last_played_fd s
           \<and> fd_lookup (os s') = fd_lookup (os s)
           \<and> terminal (os s') = terminal (os s)
           \<and> gmtime_FT (os s') = gmtime_FT (os s)"
proof -
  let ?s' = "s\<lparr>os := sys_write (sys_ftruncate (os s) (last_played_fd s)) (last_played_fd s)
      (last_played_line ts)\<rparr>"
  have "log_last_playback s t = Some ?s'"
    using assms(3) by (rule log_last_playback_converted)
  moreover have "bytes (os ?s') = (bytes (os s))(d := last_played_line ts)"
    using assms(1,2) by (simp add: truncate_write_bytes)
  moreover have "fd_lookup (os ?s') = fd_lookup (os s)"
    by (rule ext) simp
  ultimately show ?thesis
    by simp
qed

text \<open>
  Claim C5, as the code has it. Let the descriptor of the last-played file be open on a
  regular file, and let \<open>t1\<close> and \<open>t2\<close> be time stamps \<open>gmtime\<close> converts. Then
  \<open>log_last_playback\<close> at \<open>t1\<close> returns; the \<open>ftruncate\<close> empties the file, and after the
  call the file holds the single line \<open>UPNP_LAST_PLAYED='...'\<close> with the \<open>%F %T\<close>
  rendering of \<open>gmtime\<close> of \<open>t1\<close> and a newline, whatever it held before, and no other
  file has changed; a call at \<open>t2\<close> right after it returns too and leaves the line of
  \<open>t2\<close> alone in the file.
\<close>

theorem last_played_file_holds_last_record:
  assumes "fd_lookup (os s) (last_played_fd s) = Some d" and "\<not> terminal (os s) d"
    and "gmtime_FT (os s) t1 = Some ts1" and "gmtime_FT (os s) t2 = Some ts2"
  shows "bytes (sys_ftruncate (os s) (last_played_fd s)) d = []
       \<and> (\<exists>s1. log_last_playback s t1 = Some s1
             \<and> bytes (os s1)
                 = (bytes (os s))(d := ''UPNP_LAST_PLAYED='' @ [CHR 0x27] @ ts1 @ [CHR 0x27, nl])
             \<and> (\<exists>s2. log_last_playback s1 t2 = Some s2
                   \<and> bytes (os s2)
                       = (bytes (os s))
                           (d := ''UPNP_LAST_PLAYED='' @ [CHR 0x27] @ ts2 @ [CHR 0x27, nl])))"
proof -
  have a: "bytes (sys_ftruncate (os s) (last_played_fd s)) d = []"
    using assms(1,2) by (simp add: bytes_sys_ftruncate)
  from log_last_playback_bytes [OF assms(1,2,3)]
  obtain s1 where s1: "log_last_playback s t1 = Some s1"
    and b1: "bytes (os s1) = (bytes (os s))(d := last_played_line ts1)"
    and k1: "last_played_fd s1 = last_played_fd s" "fd_lookup (os s1) = fd_lookup (os s)"
      "terminal (os s1) = terminal (os s)" "gmtime_FT (os s1) = gmtime_FT (os s)"
    by blast
  have "fd_lookup (os s1) (last_played_fd s1) = Some d" and "\<not> terminal (os s1) d"
    and "gmtime_FT (os s1) t2 = Some ts2"
    using assms k1 by simp_all
  from log_last_playback_bytes [OF this]
  obtain s2 where s2: "log_last_playback s1 t2 = Some s2"
    and b2: "bytes (os s2) = (bytes (os s1))(d := last_played_line ts2)"
    by blast
  from b1 b2 have b2': "bytes (os s2) = (bytes (os s))(d := last_played_line ts2)"
    by simp
  from a s1 b1 s2 b2' show ?thesis
    by (simp add: last_played_line_def)
qed

text \<open>
  The claim as the specification states it, for every time stamp, fails: \<open>gmtime\<close> does
  not convert 67768036191676800, the first second of the year \<open>INT_MAX + 1901\<close>. At
  this time stamp \<open>log_last_playback\<close> has no result; called after a record at
  1700000000, it leaves the line of 1700000000 in the file.
\<close>

theorem last_played_time_stamp_not_converted:
  "fd_lookup (os ex_files) (last_played_fd ex_files) = Some ''last_played''
   \<and> \<not> terminal (os ex_files) ''last_played''
   \<and> gmtime_FT (os ex_files) 67768036191676800 = None
   \<and> log_last_playback ex_files 67768036191676800 = None
   \<and> log_last_playback ex_files 1700000000 \<noteq> None
   \<and> bytes (os (the (log_last_playback ex_files 1700000000))) ''last_played''
       = ''UPNP_LAST_PLAYED='' @ [CHR 0x27] @ ''2023-11-14 22:13:20'' @ [CHR 0x27, nl]
   \<and> log_last_playback (the (log_last_playback ex_files 1700000000)) 67768036191676800 = None"
proof -
  have "fd_lookup (os ex_files) (last_played_fd ex_files) = Some ''last_played''"
    by (simp add: ex_eq op_eval)
  moreover have "\<not> terminal (os ex_files) ''last_played''"
    by (simp add: ex_eq op_eval)
  moreover have "gmtime_FT (os ex_files) 67768036191676800 = None"
    by (simp add: ex_eq op_eval)
  moreover have "log_last_playback ex_files 67768036191676800 = None"
    by (simp add: ex_eq op_eval)
  moreover have "log_last_playback ex_files 1700000000 \<noteq> None"
    by (simp add: ex_eq op_eval)
  moreover have "bytes (os (the (log_last_playback ex_files 1700000000))) ''last_played''
      = ''UPNP_LAST_PLAYED='' @ [CHR 0x27] @ ''2023-11-14 22:13:20'' @ [CHR 0x27, nl]"
    by (simp add: ex_eq op_eval)
  moreover have "log_last_playback (the (log_last_playback ex_files 1700000000))
      67768036191676800 = None"
    by (simp add: ex_eq op_eval)
  ultimately show ?thesis
    by (simp only: simp_thms)
qed

text \<open>
  The theorem at work: the last-played file of the example, recorded at the epoch and
  then at 1700000000.
\<close>

theorem last_played_file_holds_last_record_witness:
  "fd_lookup (os ex_files) (last_played_fd ex_files) = Some ''last_played''
   \<and> \<not> terminal (os ex_files) ''last_played''
   \<and> gmtime_FT (os ex_files) 0 = Some ''1970-01-01 00:00:00''
   \<and> gmtime_FT (os ex_files) 1700000000 = Some ''2023-11-14 22:13:20''
   \<and> log_last_playback ex_files 0 \<noteq> None
   \<and> bytes (os (the (log_last_playback ex_files 0))) ''last_played''
       = ''UPNP_LAST_PLAYED='' @ [CHR 0x27] @ ''1970-01-01 00:00:00'' @ [CHR 0x27, nl]
   \<and> log_last_playback (the (log_last_playback ex_files 0)) 1700000000 \<noteq> None
   \<and> bytes (os (the (log_last_playback (the (log_last_playback ex_files 0)) 1700000000)))
         ''last_played''
       = ''UPNP_LAST_PLAYED='' @ [CHR 0x27] @ ''2023-11-14 22:13:20'' @ [CHR 0x27, nl]"
proof -
  have h1: "fd_lookup (os ex_files) (last_played_fd ex_files) = Some ''last_played''"
    by (simp add: ex_eq op_eval)
  have h2: "\<not> terminal (os ex_files) ''last_played''"
    by (simp add: ex_eq op_eval)
  have g0: "gmtime_FT (os ex_files) 0 = Some ''1970-01-01 00:00:00''"
    by (simp add: ex_eq op_eval)
  have g1: "gmtime_FT (os ex_files) 1700000000 = Some ''2023-11-14 22:13:20''"
    by (simp add: ex_eq op_eval)
  from last_played_file_holds_last_record [OF h1 h2 g0 g1]
  obtain s1 s2 where s1: "log_last_playback ex_files 0 = Some s1"
    and b1: "bytes (os s1) = (bytes (os ex_files))
        (''last_played'' := ''UPNP_LAST_PLAYED='' @ [CHR 0x27] @ ''1970-01-01 00:00:00''
           @ [CHR 0x27, nl])"
    and s2: "log_last_playback s1 1700000000 = Some s2"
    and b2: "bytes (os s2) = (bytes (os ex_files))
        (''last_played'' := ''UPNP_LAST_PLAYED='' @ [CHR 0x27] @ ''2023-11-14 22:13:20''
           @ [CHR 0x27, nl])"
    by blast
  have a1: "log_last_playback ex_files 0 \<noteq> None"
    by (simp add: s1)
  have a2: "bytes (os (the (log_last_playback ex_files 0))) ''last_played''
      = ''UPNP_LAST_PLAYED='' @ [CHR 0x27] @ ''1970-01-01 00:00:00'' @ [CHR 0x27, nl]"
    by (simp add: s1 b1)
  have a3: "log_last_playback (the (log_last_playback ex_files 0)) 1700000000 \<noteq> None"
    by (simp add: s1 s2)
  have a4: "bytes (os (the (log_last_playback (the (log_last_playback ex_files 0)) 1700000000)))
        ''last_played''
      = ''UPNP_LAST_PLAYED='' @ [CHR 0x27] @ ''2023-11-14 22:13:20'' @ [CHR 0x27, nl]"
    by (simp add: s1 s2 b2)
  from h1 h2 g0 g1 a1 a2 a3 a4 show ?thesis
    by (simp only: simp_thms)
qed

section \<open>Informational and error lines\<close>

lemma Log_init_plain_without_log:
  assumes "filename = None \<or> open_fails k filename"
  shows "error_markup_start (Log_init (initial k) filename lp pb) = ''ERROR ''"
    and "info_markup_start (Log_init (initial k) filename lp pb) = ''INFO  ''"
    and "markup_end (Log_init (initial k) filename lp pb) = ''''"
proof -
  let ?s0 = "Log_init (initial k) filename lp pb"
  have "error_markup_start ?s0 = ''ERROR '' \<and> info_markup_start ?s0 = ''INFO  ''
      \<and> markup_end ?s0 = ''''"
  proof (cases "open_fails k filename \<or> open_fails k lp \<or> open_fails k pb")
    case True
    then show ?thesis by (simp add: Log_init_plain_on_failure)
  next
    case False
    with assms have none: "filename = None" by blast
    from False have "\<not> open_fails k filename" and "\<not> open_fails k lp" and "\<not> open_fails k pb"
      by simp_all
    from Log_init_color_on_success [OF this] none show ?thesis
      by (simp add: log_is_terminal_def)
  qed
  then show "error_markup_start ?s0 = ''ERROR ''" and "info_markup_start ?s0 = ''INFO  ''"
    and "markup_end ?s0 = ''''"
    by simp_all
qed

lemma Log_error_bytes:
  assumes "fd_lookup (os s) (log_target s) = Some d"
  shows "bytes (os (Log_error s category msg))
           = (bytes (os s))(d := bytes (os s) d @ log_line s (error_markup_start s) category msg)"
  using assms by (simp add: Log_error_eq Log_internal_bytes)

lemma print_log_bytes:
  assumes "level \<le> debug_level (os s)" and "fd_lookup (os s) (log_target s) = Some d"
  shows "bytes (os (print_log s level category msg))
           = (bytes (os s))(d := bytes (os s) d @ log_line s (info_markup_start s) category msg)"
  using assms by (simp add: print_log_eq Log_internal_bytes)

text \<open>
  Claim C6. After \<open>Log_init\<close> on the initial state and any sequence of calls,
  \<open>Log_info_enabled\<close> is 0 exactly when no log file was asked for or \<open>open\<close> failed on
  it. In such a state \<open>Log_info\<close> leaves the whole state as it is, so no byte is written
  anywhere; \<open>Log_error\<close> appends its line, with the plain prefix \<open>ERROR\<close>, to what
  descriptor 2 (standard error) refers to, and writes nothing else.
\<close>

theorem info_disabled_iff_log_not_opened:
  assumes "run (Log_init (initial k) filename last_played_file playback_time_file) calls = Some s"
  shows "(Log_info_enabled s = 0 \<longleftrightarrow> filename = None \<or> open_fails k filename)
       \<and> (Log_info_enabled s = 0 \<longrightarrow> Log_info s category msg = s)
       \<and> (Log_info_enabled s = 0 \<and> fd_lookup (os s) STDERR_FILENO = Some e \<longrightarrow>
            bytes (os (Log_error s category msg))
              = (bytes (os s))(e := bytes (os s) e
                  @ ''ERROR ['' @ localtime_FT k (clock k) @ '' | '' @ category @ ''] ''
                  @ msg @ (if msg \<noteq> [] \<and> last msg = nl then [] else [nl])))"
proof -
  let ?s0 = "Log_init (initial k) filename last_played_file playback_time_file"
  note keep = run_keeps [OF assms]
  have en: "Log_info_enabled s = 0 \<longleftrightarrow> log_fd ?s0 < 0"
    using keep by (simp add: Log_info_enabled_def)
  then have iff: "Log_info_enabled s = 0 \<longleftrightarrow> filename = None \<or> open_fails k filename"
    by (simp add: Log_init_log_fd_neg_iff)
  have info: "Log_info s category msg = s" if "Log_info_enabled s = 0"
    using that by (simp add: Log_info_enabled_def Log_info_off split: if_splits)
  have err: "bytes (os (Log_error s category msg))
      = (bytes (os s))(e := bytes (os s) e
          @ ''ERROR ['' @ localtime_FT k (clock k) @ '' | '' @ category @ ''] ''
          @ msg @ (if msg \<noteq> [] \<and> last msg = nl then [] else [nl]))"
    if off: "Log_info_enabled s = 0" and e: "fd_lookup (os s) STDERR_FILENO = Some e"
  proof -
    from off have neg: "log_fd s < 0"
      by (simp add: Log_info_enabled_def split: if_splits)
    with e have tgt: "fd_lookup (os s) (log_target s) = Some e"
      by (simp add: log_target_def)
    from off iff have "filename = None \<or> open_fails k filename" by simp
    from Log_init_plain_without_log [OF this]
    have i: "info_markup_start s = ''INFO  ''" and er: "error_markup_start s = ''ERROR ''"
      and m: "markup_end s = ''''"
      using keep by simp_all
    have env: "localtime_FT (os s) (clock (os s)) = localtime_FT k (clock k)"
      using keep by (simp add: Log_init_env)
    from Log_error_bytes [OF tgt, of category msg] log_line_plain(2) [OF i er m, of category msg] env
    show ?thesis by simp
  qed
  from iff info err show ?thesis by blast
qed

text \<open>
  Claim C7. \<open>print_log\<close> leaves the state as it is when the level is above
  \<open>debug_level\<close>. Otherwise it appends one line with the informational prefix, and
  nothing else: to the log file when \<open>log_fd\<close> is a descriptor open on it, and to what
  descriptor 2 (standard error) refers to when \<open>log_fd\<close> is negative, where \<open>Log_info\<close>
  does nothing.
\<close>

theorem print_log_threshold_and_destination:
  "(level > debug_level (os s) \<longrightarrow> print_log s level category msg = s)
   \<and> (level \<le> debug_level (os s) \<and> 0 \<le> log_fd s \<and> fd_lookup (os s) (log_fd s) = Some d \<longrightarrow>
        bytes (os (print_log s level category msg))
          = (bytes (os s))(d := bytes (os s) d @ log_line s (info_markup_start s) category msg))
   \<and> (level \<le> debug_level (os s) \<and> log_fd s < 0 \<and> fd_lookup (os s) STDERR_FILENO = Some e \<longrightarrow>
        bytes (os (print_log s level category msg))
          = (bytes (os s))(e := bytes (os s) e @ log_line s (info_markup_start s) category msg)
        \<and> Log_info s category msg = s)"
proof -
  have a: "print_log s level category msg = s" if "level > debug_level (os s)"
    using that by (rule print_log_quiet)
  have b: "bytes (os (print_log s level category msg))
      = (bytes (os s))(d := bytes (os s) d @ log_line s (info_markup_start s) category msg)"
    if "level \<le> debug_level (os s)" and "0 \<le> log_fd s" and "fd_lookup (os s) (log_fd s) = Some d"
    using that by (simp add: print_log_bytes log_target_def)
  have c: "bytes (os (print_log s level category msg))
      = (bytes (os s))(e := bytes (os s) e @ log_line s (info_markup_start s) category msg)
      \<and> Log_info s category msg = s"
    if "level \<le> debug_level (os s)" and "log_fd s < 0"
      and "fd_lookup (os s) STDERR_FILENO = Some e"
    using that by (simp add: print_log_bytes log_target_def Log_info_off)
  from a b c show ?thesis by blast
qed

text \<open>
  The theorem at work, for claim C6: without a log file, and with a log file that cannot
  be opened (where standard error already holds the message of \<open>perror\<close>),
  \<open>Log_info_enabled\<close> is 0, \<open>Log_info\<close> changes nothing and the error line is on standard
  error; with a log file that is open, \<open>Log_info_enabled\<close> is not 0.
\<close>

theorem info_disabled_iff_log_not_opened_witness:
  "run (Log_init (initial example_sys) None (Some ''last_played'') (Some ''playback_time'')) []
     = Some ex_nolog
   \<and> Log_info_enabled ex_nolog = 0
   \<and> fd_lookup (os ex_nolog) STDERR_FILENO = Some ''stderr''
   \<and> Log_info ex_nolog ''upnp'' ''hello'' = ex_nolog
   \<and> bytes (os (Log_error ex_nolog ''upnp'' ''hello'')) ''stderr''
       = ''ERROR [2023-11-14 22:13:20 | upnp] hello'' @ [nl]
   \<and> open_fails example_sys (Some ''/nope'')
   \<and> Log_info_enabled ex_logfail = 0
   \<and> fd_lookup (os ex_logfail) STDERR_FILENO = Some ''stderr''
   \<and> Log_info ex_logfail ''upnp'' ''hello'' = ex_logfail
   \<and> bytes (os (Log_error ex_logfail ''upnp'' ''hello'')) ''stderr''
       = ''Cannot open logfile: No such file or directory'' @ [nl]
         @ ''ERROR [2023-11-14 22:13:20 | upnp] hello'' @ [nl]
   \<and> \<not> open_fails example_sys (Some ''gmrender.log'')
   \<and> Log_info_enabled ex_files \<noteq> 0"
proof -
  have r1: "run (Log_init (initial example_sys) None (Some ''last_played'')
      (Some ''playback_time'')) [] = Some ex_nolog"
    by (simp add: ex_nolog_def)
  have r2: "run (Log_init (initial example_sys) (Some ''/nope'') (Some ''last_played'')
      (Some ''playback_time'')) [] = Some ex_logfail"
    by (simp add: ex_logfail_def)
  have r3: "run (Log_init (initial example_sys) (Some ''gmrender.log'') (Some ''last_played'')
      (Some ''playback_time'')) [] = Some ex_files"
    by (simp add: ex_files_def)
  have f: "open_fails example_sys (Some ''/nope'')" by (simp add: ex_eq op_eval)
  have g: "\<not> open_fails example_sys (Some ''gmrender.log'')" by (simp add: ex_eq op_eval)
  have e1: "fd_lookup (os ex_nolog) STDERR_FILENO = Some ''stderr''" by (simp add: ex_eq op_eval)
  have e2: "fd_lookup (os ex_logfail) STDERR_FILENO = Some ''stderr''" by (simp add: ex_eq op_eval)
  have b1: "bytes (os ex_nolog) ''stderr'' = []" by (simp add: ex_eq op_eval)
  have b2: "bytes (os ex_logfail) ''stderr''
      = ''Cannot open logfile: No such file or directory'' @ [nl]"
    by (simp add: ex_eq op_eval)
  have ts: "localtime_FT example_sys (clock example_sys) = ''2023-11-14 22:13:20''"
    by (simp add: ex_eq op_eval)
  note a = info_disabled_iff_log_not_opened [OF r1, of "''upnp''" "''hello''" "''stderr''"]
  note b = info_disabled_iff_log_not_opened [OF r2, of "''upnp''" "''hello''" "''stderr''"]
  note c = info_disabled_iff_log_not_opened [OF r3, of "''upnp''" "''hello''" "''stderr''"]
  from a [THEN conjunct1] have a1: "Log_info_enabled ex_nolog = 0"
    by simp
  from a [THEN conjunct2, THEN conjunct1] a1 have a2: "Log_info ex_nolog ''upnp'' ''hello'' = ex_nolog"
    by (rule mp)
  from a [THEN conjunct2, THEN conjunct2] a1 e1
  have "bytes (os (Log_error ex_nolog ''upnp'' ''hello''))
      = (bytes (os ex_nolog))(''stderr'' := bytes (os ex_nolog) ''stderr''
          @ ''ERROR ['' @ localtime_FT example_sys (clock example_sys) @ '' | '' @ ''upnp''
          @ ''] '' @ ''hello'' @ (if ''hello'' \<noteq> [] \<and> last ''hello'' = nl then [] else [nl]))"
    by blast
  then have a3: "bytes (os (Log_error ex_nolog ''upnp'' ''hello'')) ''stderr''
      = ''ERROR [2023-11-14 22:13:20 | upnp] hello'' @ [nl]"
    by (simp add: b1 ts)
  from b [THEN conjunct1] f have b1': "Log_info_enabled ex_logfail = 0"
    by simp
  from b [THEN conjunct2, THEN conjunct1] b1'
  have b2': "Log_info ex_logfail ''upnp'' ''hello'' = ex_logfail"
    by (rule mp)
  from b [THEN conjunct2, THEN conjunct2] b1' e2
  have "bytes (os (Log_error ex_logfail ''upnp'' ''hello''))
      = (bytes (os ex_logfail))(''stderr'' := bytes (os ex_logfail) ''stderr''
          @ ''ERROR ['' @ localtime_FT example_sys (clock example_sys) @ '' | '' @ ''upnp''
          @ ''] '' @ ''hello'' @ (if ''hello'' \<noteq> [] \<and> last ''hello'' = nl then [] else [nl]))"
    by blast
  then have b3: "bytes (os (Log_error ex_logfail ''upnp'' ''hello'')) ''stderr''
      = ''Cannot open logfile: No such file or directory'' @ [nl]
        @ ''ERROR [2023-11-14 22:13:20 | upnp] hello'' @ [nl]"
    by (simp add: b2 ts)
  from c [THEN conjunct1] g have c1: "Log_info_enabled ex_files \<noteq> 0"
    by simp
  from r1 a1 e1 a2 a3 f b1' e2 b2' b3 g c1 show ?thesis
    by (simp only: simp_thms)
qed

text \<open>
  The theorem at work, for claim C7: the threshold of the example is 0. With a log
  file, level 1 changes nothing and level 0 puts the line in the log file; without a
  log file, level 0 puts the line on standard error.
\<close>

theorem print_log_threshold_and_destination_witness:
  "1 > debug_level (os ex_files)
   \<and> print_log ex_files 1 ''upnp'' ''hello'' = ex_files
   \<and> 0 \<le> debug_level (os ex_files) \<and> 0 \<le> log_fd ex_files
   \<and> fd_lookup (os ex_files) (log_fd ex_files) = Some ''gmrender.log''
   \<and> bytes (os (print_log ex_files 0 ''upnp'' ''hello'')) ''gmrender.log''
       = ''INFO  [2023-11-14 22:13:20 | upnp] hello'' @ [nl]
   \<and> bytes (os (print_log ex_files 0 ''upnp'' ''hello'')) ''stderr'' = []
   \<and> 0 \<le> debug_level (os ex_nolog) \<and> log_fd ex_nolog < 0
   \<and> fd_lookup (os ex_nolog) STDERR_FILENO = Some ''stderr''
   \<and> bytes (os (print_log ex_nolog 0 ''upnp'' ''hello'')) ''stderr''
       = ''INFO  [2023-11-14 22:13:20 | upnp] hello'' @ [nl]
   \<and> Log_info ex_nolog ''upnp'' ''hello'' = ex_nolog"
proof -
  have l1: "1 > debug_level (os ex_files)" by (simp add: ex_eq op_eval)
  have l0: "0 \<le> debug_level (os ex_files)" by (simp add: ex_eq op_eval)
  have fd: "0 \<le> log_fd ex_files" by (simp add: ex_eq op_eval)
  have d: "fd_lookup (os ex_files) (log_fd ex_files) = Some ''gmrender.log''" by (simp add: ex_eq op_eval)
  have n0: "0 \<le> debug_level (os ex_nolog)" by (simp add: ex_eq op_eval)
  have nfd: "log_fd ex_nolog < 0" by (simp add: ex_eq op_eval)
  have e: "fd_lookup (os ex_nolog) STDERR_FILENO = Some ''stderr''" by (simp add: ex_eq op_eval)
  have b1: "bytes (os ex_files) ''gmrender.log'' = []" by (simp add: ex_eq op_eval)
  have b2: "bytes (os ex_files) ''stderr'' = []" by (simp add: ex_eq op_eval)
  have b3: "bytes (os ex_nolog) ''stderr'' = []" by (simp add: ex_eq op_eval)
  have ln1: "log_line ex_files (info_markup_start ex_files) ''upnp'' ''hello''
      = ''INFO  [2023-11-14 22:13:20 | upnp] hello'' @ [nl]"
    by (simp add: ex_eq op_eval)
  have ln2: "log_line ex_nolog (info_markup_start ex_nolog) ''upnp'' ''hello''
      = ''INFO  [2023-11-14 22:13:20 | upnp] hello'' @ [nl]"
    by (simp add: ex_eq op_eval)
  note a = print_log_threshold_and_destination
    [where level = 1 and s = ex_files and category = "''upnp''" and msg = "''hello''"
      and d = "''gmrender.log''" and e = "''stderr''"]
  note b = print_log_threshold_and_destination
    [where level = 0 and s = ex_files and category = "''upnp''" and msg = "''hello''"
      and d = "''gmrender.log''" and e = "''stderr''"]
  note c = print_log_threshold_and_destination
    [where level = 0 and s = ex_nolog and category = "''upnp''" and msg = "''hello''"
      and d = "''gmrender.log''" and e = "''stderr''"]
  from a [THEN conjunct1] l1 have a1: "print_log ex_files 1 ''upnp'' ''hello'' = ex_files"
    by (rule mp)
  from b [THEN conjunct2, THEN conjunct1] l0 fd d
  have bb: "bytes (os (print_log ex_files 0 ''upnp'' ''hello''))
      = (bytes (os ex_files))(''gmrender.log'' := bytes (os ex_files) ''gmrender.log''
          @ log_line ex_files (info_markup_start ex_files) ''upnp'' ''hello'')"
    by blast
  from bb have b1': "bytes (os (print_log ex_files 0 ''upnp'' ''hello'')) ''gmrender.log''
      = ''INFO  [2023-11-14 22:13:20 | upnp] hello'' @ [nl]"
    by (simp add: b1 ln1)
  from bb have b2': "bytes (os (print_log ex_files 0 ''upnp'' ''hello'')) ''stderr'' = []"
    by (simp add: b2)
  from c [THEN conjunct2, THEN conjunct2] n0 nfd e
  have cc: "bytes (os (print_log ex_nolog 0 ''upnp'' ''hello''))
      = (bytes (os ex_nolog))(''stderr'' := bytes (os ex_nolog) ''stderr''
          @ log_line ex_nolog (info_markup_start ex_nolog) ''upnp'' ''hello'')
      \<and> Log_info ex_nolog ''upnp'' ''hello'' = ex_nolog"
    by blast
  from cc have c1: "bytes (os (print_log ex_nolog 0 ''upnp'' ''hello'')) ''stderr''
      = ''INFO  [2023-11-14 22:13:20 | upnp] hello'' @ [nl]"
    by (simp add: b3 ln2)
  from cc have c2: "Log_info ex_nolog ''upnp'' ''hello'' = ex_nolog"
    by (rule conjunct2)
  from l1 a1 l0 fd d b1' b2' n0 nfd e c1 c2 show ?thesis
    by (simp only: simp_thms)
qed

section \<open>The playback-time record\<close>

lemma int_of_double_in_range:
  "INT_MIN \<le> d \<Longrightarrow> d \<le> INT_MAX \<Longrightarrow> int_of_double k d = Some d"
  by (simp add: int_of_double_def)

lemma log_playback_duration_eq:
  assumes "INT_MIN \<le> playend - playstart" and "playend - playstart \<le> INT_MAX"
  shows "log_playback_duration s playstart playend
           = Some (print_log (after_total s (playend - playstart)) 0 ''transport''
                     (playing_time_msg (playend - playstart)))"
  using assms
  by (simp add: log_playback_duration_def difftime_def int_of_double_in_range Let_def
      after_total_def playing_time_msg_def)

lemma after_total_keeps [simp]:
  "log_fd (after_total s r) = log_fd s"
  "playback_fd (after_total s r) = playback_fd s"
  "info_markup_start (after_total s r) = info_markup_start s"
  "markup_end (after_total s r) = markup_end s"
  "debug_level (os (after_total s r)) = debug_level (os s)"
  "fd_lookup (os (after_total s r)) fd = fd_lookup (os s) fd"
  "log_target (after_total s r) = log_target s"
  "log_line (after_total s r) m c msg = log_line s m c msg"
  by (simp_all add: after_total_def log_target_def log_line_def)

lemma after_total_unconfigured: "playback_fd s < 0 \<Longrightarrow> after_total s r = s"
  by (simp add: after_total_def fd_lookup_neg sys_ftruncate_closed sys_write_closed)

lemma after_total_bytes:
  assumes "fd_lookup (os s) (playback_fd s) = Some d" and "\<not> terminal (os s) d"
  shows "bytes (os (after_total s r)) = (bytes (os s))(d := total_line r)"
  using assms by (simp add: after_total_def truncate_write_bytes)

lemma sdiv_smod_nonneg:
  assumes "0 \<le> (r::int)"
  shows "r sdiv 3600 = r div 3600" and "(r sdiv 60) smod 60 = (r div 60) mod 60"
    and "r smod 60 = r mod 60"
proof -
  show "r sdiv 3600 = r div 3600"
    using assms by (cases "r = 0") (simp_all add: signed_divide_int_def sgn_if)
  have d60: "r sdiv 60 = r div 60"
    using assms by (cases "r = 0") (simp_all add: signed_divide_int_def sgn_if)
  have "0 \<le> r div 60"
    using assms by simp
  then show "(r sdiv 60) smod 60 = (r div 60) mod 60"
    unfolding d60 by (cases "r div 60 = 0") (simp_all add: signed_modulo_int_def sgn_if)
  show "r smod 60 = r mod 60"
    using assms by (cases "r = 0") (simp_all add: signed_modulo_int_def sgn_if)
qed

text \<open>
  Claim C10. Let the elapsed time fit an \<open>int\<close>. Then the result of
  \<open>log_playback_duration\<close> is that of \<open>print_log\<close> at level 0, category \<open>transport\<close>,
  called after the playback-time file has been rewritten. When \<open>debug_level\<close> is
  negative, no line is emitted: the result is the state after the file was rewritten.
  When \<open>debug_level\<close> is not negative and \<open>log_fd\<close> is negative, the line is appended to
  what descriptor 2 (standard error) refers to.
\<close>

theorem playing_time_line_goes_through_print_log:
  assumes "INT_MIN \<le> playend - playstart" and "playend - playstart \<le> INT_MAX"
    and "r = playend - playstart"
  shows "log_playback_duration s playstart playend
           = Some (print_log (after_total s r) 0 ''transport'' (playing_time_msg r))
       \<and> (debug_level (os s) < 0 \<longrightarrow>
            log_playback_duration s playstart playend = Some (after_total s r))
       \<and> (0 \<le> debug_level (os s) \<and> log_fd s < 0 \<and> fd_lookup (os s) STDERR_FILENO = Some e \<longrightarrow>
            bytes (os (print_log (after_total s r) 0 ''transport'' (playing_time_msg r)))
              = (bytes (os (after_total s r)))
                  (e := bytes (os (after_total s r)) e
                     @ log_line s (info_markup_start s) ''transport'' (playing_time_msg r)))"
proof -
  have a: "log_playback_duration s playstart playend
      = Some (print_log (after_total s r) 0 ''transport'' (playing_time_msg r))"
    unfolding assms(3) using assms(1,2) by (rule log_playback_duration_eq)
  have b: "log_playback_duration s playstart playend = Some (after_total s r)"
    if "debug_level (os s) < 0"
    using that a by (simp add: print_log_quiet)
  have c: "bytes (os (print_log (after_total s r) 0 ''transport'' (playing_time_msg r)))
      = (bytes (os (after_total s r)))
          (e := bytes (os (after_total s r)) e
             @ log_line s (info_markup_start s) ''transport'' (playing_time_msg r))"
    if "0 \<le> debug_level (os s)" and "log_fd s < 0" and "fd_lookup (os s) STDERR_FILENO = Some e"
  proof -
    from that have "fd_lookup (os (after_total s r)) (log_target (after_total s r)) = Some e"
      by (simp add: log_target_def)
    moreover from that have "0 \<le> debug_level (os (after_total s r))"
      by simp
    ultimately show ?thesis
      using print_log_bytes [of 0 "after_total s r" e "''transport''" "playing_time_msg r"]
      by simp
  qed
  from a b c show ?thesis by blast
qed

text \<open>
  The theorem at work, for claim C10: 3725 seconds of playing. Without a log file and
  with the threshold 0, the line is on standard error; with the threshold \<open>-1\<close>, the
  log file and standard error stay empty.
\<close>

theorem playing_time_line_goes_through_print_log_witness:
  "INT_MIN \<le> 1700003725 - 1700000000 \<and> 1700003725 - 1700000000 \<le> INT_MAX
   \<and> 0 \<le> debug_level (os ex_nolog) \<and> log_fd ex_nolog < 0
   \<and> fd_lookup (os ex_nolog) STDERR_FILENO = Some ''stderr''
   \<and> log_playback_duration ex_nolog 1700000000 1700003725
       = Some (print_log (after_total ex_nolog 3725) 0 ''transport'' (playing_time_msg 3725))
   \<and> bytes (os (print_log (after_total ex_nolog 3725) 0 ''transport'' (playing_time_msg 3725)))
         ''stderr''
       = ''INFO  [2023-11-14 22:13:20 | transport] Total playing time 01:02:05'' @ [nl]
   \<and> debug_level (os ex_quiet) < 0
   \<and> log_playback_duration ex_quiet 1700000000 1700003725 = Some (after_total ex_quiet 3725)
   \<and> bytes (os (after_total ex_quiet 3725)) ''gmrender.log'' = []
   \<and> bytes (os (after_total ex_quiet 3725)) ''stderr'' = []"
proof -
  have lo: "INT_MIN \<le> 1700003725 - 1700000000" by (simp add: INT_MIN_def)
  have hi: "1700003725 - 1700000000 \<le> INT_MAX" by (simp add: INT_MAX_def)
  have r: "(3725::int) = 1700003725 - 1700000000" by simp
  have n0: "0 \<le> debug_level (os ex_nolog)" by (simp add: ex_eq op_eval)
  have nfd: "log_fd ex_nolog < 0" by (simp add: ex_eq op_eval)
  have e: "fd_lookup (os ex_nolog) STDERR_FILENO = Some ''stderr''" by (simp add: ex_eq op_eval)
  have q: "debug_level (os ex_quiet) < 0" by (simp add: ex_eq op_eval)
  have b0: "bytes (os (after_total ex_nolog 3725)) ''stderr'' = []" by (simp add: ex_eq op_eval)
  have ln: "log_line ex_nolog (info_markup_start ex_nolog) ''transport'' (playing_time_msg 3725)
      = ''INFO  [2023-11-14 22:13:20 | transport] Total playing time 01:02:05'' @ [nl]"
    by (simp add: ex_eq op_eval)
  have q1: "bytes (os (after_total ex_quiet 3725)) ''gmrender.log'' = []" by (simp add: ex_eq op_eval)
  have q2: "bytes (os (after_total ex_quiet 3725)) ''stderr'' = []" by (simp add: ex_eq op_eval)
  note a = playing_time_line_goes_through_print_log
    [OF lo hi r, where s = ex_nolog and e = "''stderr''"]
  note b = playing_time_line_goes_through_print_log
    [OF lo hi r, where s = ex_quiet and e = "''stderr''"]
  note a1 = a [THEN conjunct1]
  from a [THEN conjunct2, THEN conjunct2] n0 nfd e
  have "bytes (os (print_log (after_total ex_nolog 3725) 0 ''transport'' (playing_time_msg 3725)))
      = (bytes (os (after_total ex_nolog 3725)))
          (''stderr'' := bytes (os (after_total ex_nolog 3725)) ''stderr''
             @ log_line ex_nolog (info_markup_start ex_nolog) ''transport''
                 (playing_time_msg 3725))"
    by blast
  then have a2: "bytes (os (print_log (after_total ex_nolog 3725) 0 ''transport''
        (playing_time_msg 3725))) ''stderr''
      = ''INFO  [2023-11-14 22:13:20 | transport] Total playing time 01:02:05'' @ [nl]"
    by (simp add: b0 ln)
  from b [THEN conjunct2, THEN conjunct1] q
  have b1: "log_playback_duration ex_quiet 1700000000 1700003725 = Some (after_total ex_quiet 3725)"
    by (rule mp)
  from lo hi n0 nfd e a1 a2 q b1 q1 q2 show ?thesis
    by (simp only: simp_thms)
qed

section \<open>The record operations without their file\<close>

text \<open>
  Claim C2, as the code has it. Neither operation tests its descriptor. With a
  negative \<open>last_played_fd\<close> and a time stamp \<open>gmtime\<close> converts, \<open>log_last_playback\<close>
  returns and leaves the whole state as it is: the \<open>ftruncate\<close> and the \<open>write\<close> fail.
  With a negative \<open>playback_fd\<close> and an elapsed time
  that fits an \<open>int\<close>, \<open>log_playback_duration\<close> returns, and what it does is what
  \<open>print_log\<close> does at level 0 with the line of the total playing time: nothing when
  \<open>debug_level\<close> is negative, and else one line appended to the log file, or to standard
  error when there is no log file.
\<close>

theorem record_operations_without_their_file:
  "(last_played_fd s < 0 \<and> gmtime_FT (os s) playstart \<noteq> None \<longrightarrow>
      log_last_playback s playstart = Some s)
   \<and> (playback_fd s < 0 \<and> INT_MIN \<le> playend - playstart \<and> playend - playstart \<le> INT_MAX \<longrightarrow>
        log_playback_duration s playstart playend
          = Some (print_log s 0 ''transport'' (playing_time_msg (playend - playstart)))
        \<and> (debug_level (os s) < 0 \<longrightarrow> log_playback_duration s playstart playend = Some s)
        \<and> (0 \<le> debug_level (os s) \<and> fd_lookup (os s) (log_target s) = Some l \<longrightarrow>
             bytes (os (print_log s 0 ''transport'' (playing_time_msg (playend - playstart))))
               = (bytes (os s))(l := bytes (os s) l
                   @ log_line s (info_markup_start s) ''transport''
                       (playing_time_msg (playend - playstart)))))"
proof -
  have a: "log_last_playback s playstart = Some s"
    if "last_played_fd s < 0" and "gmtime_FT (os s) playstart \<noteq> None"
    using that
    by (auto simp add: log_last_playback_def Let_def fd_lookup_neg sys_ftruncate_closed
        sys_write_closed)
  have b: "log_playback_duration s playstart playend
      = Some (print_log s 0 ''transport'' (playing_time_msg (playend - playstart)))"
    if "playback_fd s < 0" and "INT_MIN \<le> playend - playstart"
      and "playend - playstart \<le> INT_MAX"
    using that by (simp add: log_playback_duration_eq after_total_unconfigured)
  have c: "print_log s 0 ''transport'' (playing_time_msg (playend - playstart)) = s"
    if "debug_level (os s) < 0"
    using that by (simp add: print_log_quiet)
  have d: "bytes (os (print_log s 0 ''transport'' (playing_time_msg (playend - playstart))))
      = (bytes (os s))(l := bytes (os s) l
          @ log_line s (info_markup_start s) ''transport''
              (playing_time_msg (playend - playstart)))"
    if "0 \<le> debug_level (os s)" and "fd_lookup (os s) (log_target s) = Some l"
    using that by (rule print_log_bytes)
  from a b c d show ?thesis by simp
qed

text \<open>
  The claim as the specification states it fails twice. No byte is written to any
  destination: with a log file and no playback-time file, five seconds of playing put
  a line of \<open>log_playback_duration\<close> in the log file. No error is raised:
  \<open>log_last_playback\<close> without its file has no result at the time stamp
  67768036191676800, which \<open>gmtime\<close> does not convert.
\<close>

theorem playback_duration_without_file_writes_log:
  "playback_fd ex_logonly < 0
   \<and> fd_lookup (os ex_logonly) (log_fd ex_logonly) = Some ''gmrender.log''
   \<and> bytes (os ex_logonly) ''gmrender.log'' = []
   \<and> log_playback_duration ex_logonly 1700000000 1700000005 \<noteq> None
   \<and> bytes (os (the (log_playback_duration ex_logonly 1700000000 1700000005))) ''gmrender.log''
       = ''INFO  [2023-11-14 22:13:20 | transport] Total playing time 00:00:05'' @ [nl]
   \<and> last_played_fd ex_logonly < 0
   \<and> log_last_playback ex_logonly 67768036191676800 = None"
proof -
  have "playback_fd ex_logonly < 0" by (simp add: ex_eq op_eval)
  moreover have "last_played_fd ex_logonly < 0" by (simp add: ex_eq op_eval)
  moreover have "log_last_playback ex_logonly 67768036191676800 = None"
    by (simp add: ex_eq op_eval)
  moreover have "fd_lookup (os ex_logonly) (log_fd ex_logonly) = Some ''gmrender.log''"
    by (simp add: ex_eq op_eval)
  moreover have "bytes (os ex_logonly) ''gmrender.log'' = []" by (simp add: ex_eq op_eval)
  moreover have "log_playback_duration ex_logonly 1700000000 1700000005 \<noteq> None"
    by (simp add: ex_eq op_eval)
  moreover have "bytes (os (the (log_playback_duration ex_logonly 1700000000 1700000005)))
        ''gmrender.log''
      = ''INFO  [2023-11-14 22:13:20 | transport] Total playing time 00:00:05'' @ [nl]"
    by (simp add: ex_eq op_eval)
  ultimately show ?thesis
    by (simp only: simp_thms)
qed

text \<open>
  The theorem at work: the state with a log file and no other file, with the threshold
  0 and with the threshold \<open>-1\<close>.
\<close>

theorem record_operations_without_their_file_witness:
  "last_played_fd ex_logonly < 0
   \<and> gmtime_FT (os ex_logonly) 1700000000 \<noteq> None
   \<and> log_last_playback ex_logonly 1700000000 = Some ex_logonly
   \<and> playback_fd ex_logonly < 0
   \<and> INT_MIN \<le> 1700000005 - 1700000000 \<and> 1700000005 - 1700000000 \<le> INT_MAX
   \<and> log_playback_duration ex_logonly 1700000000 1700000005
       = Some (print_log ex_logonly 0 ''transport'' (playing_time_msg 5))
   \<and> 0 \<le> debug_level (os ex_logonly)
   \<and> fd_lookup (os ex_logonly) (log_target ex_logonly) = Some ''gmrender.log''
   \<and> bytes (os (print_log ex_logonly 0 ''transport'' (playing_time_msg 5))) ''gmrender.log''
       = ''INFO  [2023-11-14 22:13:20 | transport] Total playing time 00:00:05'' @ [nl]
   \<and> bytes (os (print_log ex_logonly 0 ''transport'' (playing_time_msg 5))) ''stderr'' = []
   \<and> playback_fd ex_quiet_logonly < 0
   \<and> debug_level (os ex_quiet_logonly) < 0
   \<and> log_playback_duration ex_quiet_logonly 1700000000 1700000005 = Some ex_quiet_logonly"
proof -
  have qpb: "playback_fd ex_quiet_logonly < 0" by (simp add: ex_eq op_eval)
  have qdl: "debug_level (os ex_quiet_logonly) < 0" by (simp add: ex_eq op_eval)
  note q = record_operations_without_their_file
    [where s = ex_quiet_logonly and playstart = 1700000000 and playend = 1700000005
      and l = "''gmrender.log''"]
  have lp: "last_played_fd ex_logonly < 0" by (simp add: ex_eq op_eval)
  have gm: "gmtime_FT (os ex_logonly) 1700000000 \<noteq> None" by (simp add: ex_eq op_eval)
  have pb: "playback_fd ex_logonly < 0" by (simp add: ex_eq op_eval)
  have lo: "INT_MIN \<le> 1700000005 - 1700000000" by (simp add: INT_MIN_def)
  have hi: "1700000005 - 1700000000 \<le> INT_MAX" by (simp add: INT_MAX_def)
  have dl: "0 \<le> debug_level (os ex_logonly)" by (simp add: ex_eq op_eval)
  have tg: "fd_lookup (os ex_logonly) (log_target ex_logonly) = Some ''gmrender.log''"
    by (simp add: ex_eq op_eval)
  have b1: "bytes (os ex_logonly) ''gmrender.log'' = []" by (simp add: ex_eq op_eval)
  have b2: "bytes (os ex_logonly) ''stderr'' = []" by (simp add: ex_eq op_eval)
  have ln: "log_line ex_logonly (info_markup_start ex_logonly) ''transport'' (playing_time_msg 5)
      = ''INFO  [2023-11-14 22:13:20 | transport] Total playing time 00:00:05'' @ [nl]"
    by (simp add: ex_eq op_eval)
  note a = record_operations_without_their_file
    [where s = ex_logonly and playstart = 1700000000 and playend = 1700000005
      and l = "''gmrender.log''"]
  from a [THEN conjunct1] lp gm
  have a1: "log_last_playback ex_logonly 1700000000 = Some ex_logonly"
    by blast
  from a [THEN conjunct2] pb lo hi
  have a2: "log_playback_duration ex_logonly 1700000000 1700000005
        = Some (print_log ex_logonly 0 ''transport'' (playing_time_msg 5))"
    and a3: "0 \<le> debug_level (os ex_logonly)
        \<and> fd_lookup (os ex_logonly) (log_target ex_logonly) = Some ''gmrender.log'' \<longrightarrow>
        bytes (os (print_log ex_logonly 0 ''transport'' (playing_time_msg 5)))
          = (bytes (os ex_logonly))(''gmrender.log'' := bytes (os ex_logonly) ''gmrender.log''
              @ log_line ex_logonly (info_markup_start ex_logonly) ''transport''
                  (playing_time_msg 5))"
    by simp_all
  from a3 dl tg
  have bb: "bytes (os (print_log ex_logonly 0 ''transport'' (playing_time_msg 5)))
      = (bytes (os ex_logonly))(''gmrender.log'' := bytes (os ex_logonly) ''gmrender.log''
          @ log_line ex_logonly (info_markup_start ex_logonly) ''transport''
              (playing_time_msg 5))"
    by blast
  from bb have a4: "bytes (os (print_log ex_logonly 0 ''transport'' (playing_time_msg 5)))
        ''gmrender.log''
      = ''INFO  [2023-11-14 22:13:20 | transport] Total playing time 00:00:05'' @ [nl]"
    by (simp add: b1 ln)
  from bb have a5: "bytes (os (print_log ex_logonly 0 ''transport'' (playing_time_msg 5)))
        ''stderr'' = []"
    by (simp add: b2)
  from q [THEN conjunct2] qpb lo hi
  have "debug_level (os ex_quiet_logonly) < 0 \<longrightarrow>
      log_playback_duration ex_quiet_logonly 1700000000 1700000005 = Some ex_quiet_logonly"
    by blast
  from this qdl
  have q1: "log_playback_duration ex_quiet_logonly 1700000000 1700000005 = Some ex_quiet_logonly"
    by (rule mp)
  from lp gm a1 pb lo hi a2 dl tg a4 a5 qpb qdl q1 show ?thesis
    by (simp only: simp_thms)
qed

text \<open>
  Claim C4, as the code has it. Let the elapsed time \<open>r = playend - playstart\<close> fit an
  \<open>int\<close> and let \<open>playback_fd\<close> be open on a regular file. Then \<open>log_playback_duration\<close>
  returns. It first makes the single line \<open>UPNP_TOTAL=r\<close> the whole content of the file.
  Then, when \<open>debug_level\<close> is at least 0 and the descriptor \<open>print_log\<close> writes to is open,
  it appends to that destination one line with the message
  \<open>Total playing time HH:MM:SS\<close>, where the hours are \<open>r / 3600\<close> (not reduced modulo 24),
  the minutes \<open>(r / 60) % 60\<close> and the seconds \<open>r % 60\<close>, in the truncating arithmetic of C,
  each printed with \<open>%02d\<close>; for \<open>r\<close> not negative these are \<open>div\<close> and \<open>mod\<close>. When
  \<open>debug_level\<close> is negative there is no such line. Nothing else is written: the file
  holds the line of the total alone unless the log destination is this very file.
\<close>

theorem playback_duration_record:
  assumes "INT_MIN \<le> playend - playstart" and "playend - playstart \<le> INT_MAX"
    and "r = playend - playstart"
    and "fd_lookup (os s) (playback_fd s) = Some d" and "\<not> terminal (os s) d"
  shows "\<exists>s'. log_playback_duration s playstart playend = Some s'
       \<and> bytes (os (after_total s r)) = (bytes (os s))(d := ''UPNP_TOTAL='' @ fmt_d r @ [nl])
       \<and> bytes (os s')
           = (if debug_level (os s) < 0 then bytes (os (after_total s r))
              else (case fd_lookup (os s) (log_target s) of
                      None \<Rightarrow> bytes (os (after_total s r))
                    | Some l \<Rightarrow> (bytes (os (after_total s r)))
                        (l := bytes (os (after_total s r)) l
                           @ log_line s (info_markup_start s) ''transport''
                               (''Total playing time '' @ fmt_02d (r sdiv 3600) @ '':''
                                  @ fmt_02d ((r sdiv 60) smod 60) @ '':''
                                  @ fmt_02d (r smod 60) @ [nl]))))
       \<and> (debug_level (os s) < 0 \<or> fd_lookup (os s) (log_target s) \<noteq> Some d \<longrightarrow>
            bytes (os s') d = ''UPNP_TOTAL='' @ fmt_d r @ [nl])
       \<and> (0 \<le> debug_level (os s) \<and> fd_lookup (os s) (log_target s) = Some l \<and> l \<noteq> d \<longrightarrow>
            bytes (os s') l
              = bytes (os s) l
                @ log_line s (info_markup_start s) ''transport''
                    (''Total playing time '' @ fmt_02d (r sdiv 3600) @ '':''
                       @ fmt_02d ((r sdiv 60) smod 60) @ '':'' @ fmt_02d (r smod 60) @ [nl]))
       \<and> (0 \<le> r \<longrightarrow> r sdiv 3600 = r div 3600 \<and> (r sdiv 60) smod 60 = (r div 60) mod 60
            \<and> r smod 60 = r mod 60)"
proof -
  let ?s1 = "after_total s r"
  let ?msg = "''Total playing time '' @ fmt_02d (r sdiv 3600) @ '':''
      @ fmt_02d ((r sdiv 60) smod 60) @ '':'' @ fmt_02d (r smod 60) @ [nl]"
  let ?s' = "print_log ?s1 0 ''transport'' (playing_time_msg r)"
  have msg: "playing_time_msg r = ?msg"
    by (simp only: playing_time_msg_def total_playing_time_def)
  have ret: "log_playback_duration s playstart playend = Some ?s'"
    unfolding assms(3) using assms(1,2) by (rule log_playback_duration_eq)
  have b1: "bytes (os ?s1) = (bytes (os s))(d := ''UPNP_TOTAL='' @ fmt_d r @ [nl])"
    using after_total_bytes [OF assms(4,5), of r] by (simp only: total_line_def)
  have quiet: "bytes (os ?s') = bytes (os ?s1)" if "debug_level (os s) < 0"
    using that by (simp add: print_log_quiet)
  have closed: "bytes (os ?s') = bytes (os ?s1)"
    if "0 \<le> debug_level (os s)" and "fd_lookup (os s) (log_target s) = None"
    using that
    by (simp add: print_log_eq Log_internal_os sys_write_closed)
  have opn: "bytes (os ?s') = (bytes (os ?s1))(l := bytes (os ?s1) l
      @ log_line s (info_markup_start s) ''transport'' ?msg)"
    if "0 \<le> debug_level (os s)" and "fd_lookup (os s) (log_target s) = Some l" for l
  proof -
    from that have "0 \<le> debug_level (os ?s1)"
      and "fd_lookup (os ?s1) (log_target ?s1) = Some l"
      by simp_all
    from print_log_bytes [OF this, of "''transport''" "playing_time_msg r"]
    have "bytes (os ?s') = (bytes (os ?s1))(l := bytes (os ?s1) l
        @ log_line s (info_markup_start s) ''transport'' (playing_time_msg r))"
      by simp
    then show ?thesis
      by (simp only: msg)
  qed
  have full: "bytes (os ?s')
      = (if debug_level (os s) < 0 then bytes (os ?s1)
         else (case fd_lookup (os s) (log_target s) of
                 None \<Rightarrow> bytes (os ?s1)
               | Some l \<Rightarrow> (bytes (os ?s1))
                   (l := bytes (os ?s1) l
                      @ log_line s (info_markup_start s) ''transport'' ?msg)))"
  proof (cases "debug_level (os s) < 0")
    case True
    then show ?thesis by (simp only: quiet if_True)
  next
    case False
    then have nn: "0 \<le> debug_level (os s)" by simp
    show ?thesis
    proof (cases "fd_lookup (os s) (log_target s)")
      case None
      with False closed [OF nn] show ?thesis by simp
    next
      case (Some l)
      with False opn [OF nn] show ?thesis by simp
    qed
  qed
  have tot: "bytes (os ?s') d = ''UPNP_TOTAL='' @ fmt_d r @ [nl]"
    if "debug_level (os s) < 0 \<or> fd_lookup (os s) (log_target s) \<noteq> Some d"
  proof (cases "debug_level (os s) < 0")
    case True
    then show ?thesis by (simp add: quiet b1)
  next
    case False
    with that have ne: "fd_lookup (os s) (log_target s) \<noteq> Some d" by blast
    from False have nn: "0 \<le> debug_level (os s)" by simp
    show ?thesis
    proof (cases "fd_lookup (os s) (log_target s)")
      case None
      then show ?thesis by (simp add: closed [OF nn] b1)
    next
      case (Some l)
      with ne have "l \<noteq> d" by simp
      then show ?thesis by (simp add: opn [OF nn Some] b1)
    qed
  qed
  have line: "bytes (os ?s') l = bytes (os s) l
      @ log_line s (info_markup_start s) ''transport'' ?msg"
    if "0 \<le> debug_level (os s)" and "fd_lookup (os s) (log_target s) = Some l" and "l \<noteq> d"
    using that(3) by (simp add: opn [OF that(1,2)] b1)
  from ret b1 full tot line sdiv_smod_nonneg [of r] show ?thesis
    by blast
qed

text \<open>
  The claim as the specification states it, for every pair of times and with a line in
  the log in every case, fails twice. From \<open>playstart = -1\<close> to \<open>playend = 2147483647\<close>
  the elapsed time is \<open>2^31\<close> seconds, which is no \<open>int\<close>: where the conversion gives
  \<open>INT_MIN\<close>, the file holds \<open>UPNP_TOTAL=-2147483648\<close>, not \<open>UPNP_TOTAL=2147483648\<close>, and the
  line in the log is not of the form \<open>HH:MM:SS\<close>. With \<open>debug_level = -1\<close> and 3725
  seconds of playing, the file is written and no line is emitted, neither to the log
  file nor to standard error.
\<close>

theorem playback_duration_out_of_range_or_quiet:
  "fd_lookup (os ex_files) (playback_fd ex_files) = Some ''playback_time''
   \<and> fd_lookup (os ex_files) (log_fd ex_files) = Some ''gmrender.log''
   \<and> difftime 2147483647 (- 1) = 2147483648
   \<and> log_playback_duration ex_files (- 1) 2147483647 \<noteq> None
   \<and> bytes (os (the (log_playback_duration ex_files (- 1) 2147483647))) ''playback_time''
       = ''UPNP_TOTAL=-2147483648'' @ [nl]
   \<and> bytes (os (the (log_playback_duration ex_files (- 1) 2147483647))) ''gmrender.log''
       = ''INFO  [2023-11-14 22:13:20 | transport] Total playing time -596523:-14:-8'' @ [nl]
   \<and> fd_lookup (os ex_quiet) (playback_fd ex_quiet) = Some ''playback_time''
   \<and> fd_lookup (os ex_quiet) (log_fd ex_quiet) = Some ''gmrender.log''
   \<and> debug_level (os ex_quiet) = - 1
   \<and> log_playback_duration ex_quiet 1700000000 1700003725 \<noteq> None
   \<and> bytes (os (the (log_playback_duration ex_quiet 1700000000 1700003725))) ''playback_time''
       = ''UPNP_TOTAL=3725'' @ [nl]
   \<and> bytes (os (the (log_playback_duration ex_quiet 1700000000 1700003725))) ''gmrender.log''
       = []
   \<and> bytes (os (the (log_playback_duration ex_quiet 1700000000 1700003725))) ''stderr'' = []"
proof -
  have "fd_lookup (os ex_files) (playback_fd ex_files) = Some ''playback_time''"
    by (simp add: ex_eq op_eval)
  moreover have "fd_lookup (os ex_files) (log_fd ex_files) = Some ''gmrender.log''"
    by (simp add: ex_eq op_eval)
  moreover have "difftime 2147483647 (- 1) = 2147483648"
    by (simp add: difftime_def)
  moreover have "log_playback_duration ex_files (- 1) 2147483647 \<noteq> None"
    by (simp add: ex_eq op_eval)
  moreover have "bytes (os (the (log_playback_duration ex_files (- 1) 2147483647)))
      ''playback_time'' = ''UPNP_TOTAL=-2147483648'' @ [nl]"
    by (simp add: ex_eq op_eval)
  moreover have "bytes (os (the (log_playback_duration ex_files (- 1) 2147483647)))
      ''gmrender.log''
      = ''INFO  [2023-11-14 22:13:20 | transport] Total playing time -596523:-14:-8'' @ [nl]"
    by (simp add: ex_eq op_eval)
  moreover have "fd_lookup (os ex_quiet) (playback_fd ex_quiet) = Some ''playback_time''"
    by (simp add: ex_eq op_eval)
  moreover have "fd_lookup (os ex_quiet) (log_fd ex_quiet) = Some ''gmrender.log''"
    by (simp add: ex_eq op_eval)
  moreover have "debug_level (os ex_quiet) = - 1"
    by (simp add: ex_eq op_eval)
  moreover have "log_playback_duration ex_quiet 1700000000 1700003725 \<noteq> None"
    by (simp add: ex_eq op_eval)
  moreover have "bytes (os (the (log_playback_duration ex_quiet 1700000000 1700003725)))
      ''playback_time'' = ''UPNP_TOTAL=3725'' @ [nl]"
    by (simp add: ex_eq op_eval)
  moreover have "bytes (os (the (log_playback_duration ex_quiet 1700000000 1700003725)))
      ''gmrender.log'' = []"
    by (simp add: ex_eq op_eval)
  moreover have "bytes (os (the (log_playback_duration ex_quiet 1700000000 1700003725)))
      ''stderr'' = []"
    by (simp add: ex_eq op_eval)
  ultimately show ?thesis
    by (simp only: simp_thms)
qed

text \<open>
  The theorem at work: 3725 seconds of playing give \<open>UPNP_TOTAL=3725\<close> and \<open>01:02:05\<close>,
  and 90000 seconds give \<open>UPNP_TOTAL=90000\<close> and \<open>25:00:00\<close>; with the threshold \<open>-1\<close>
  3725 seconds give \<open>UPNP_TOTAL=3725\<close> in the file.
\<close>

theorem playback_duration_record_witness:
  "INT_MIN \<le> 1700003725 - 1700000000 \<and> 1700003725 - 1700000000 \<le> INT_MAX
   \<and> INT_MIN \<le> 1700090000 - 1700000000 \<and> 1700090000 - 1700000000 \<le> INT_MAX
   \<and> fd_lookup (os ex_files) (playback_fd ex_files) = Some ''playback_time''
   \<and> \<not> terminal (os ex_files) ''playback_time''
   \<and> 0 \<le> debug_level (os ex_files)
   \<and> fd_lookup (os ex_files) (log_target ex_files) = Some ''gmrender.log''
   \<and> fd_lookup (os ex_files) (log_target ex_files) \<noteq> Some ''playback_time''
   \<and> ''gmrender.log'' \<noteq> ''playback_time''
   \<and> log_playback_duration ex_files 1700000000 1700003725 \<noteq> None
   \<and> bytes (os (the (log_playback_duration ex_files 1700000000 1700003725))) ''playback_time''
       = ''UPNP_TOTAL=3725'' @ [nl]
   \<and> bytes (os (the (log_playback_duration ex_files 1700000000 1700003725))) ''gmrender.log''
       = ''INFO  [2023-11-14 22:13:20 | transport] Total playing time 01:02:05'' @ [nl]
   \<and> log_playback_duration ex_files 1700000000 1700090000 \<noteq> None
   \<and> bytes (os (the (log_playback_duration ex_files 1700000000 1700090000))) ''playback_time''
       = ''UPNP_TOTAL=90000'' @ [nl]
   \<and> bytes (os (the (log_playback_duration ex_files 1700000000 1700090000))) ''gmrender.log''
       = ''INFO  [2023-11-14 22:13:20 | transport] Total playing time 25:00:00'' @ [nl]
   \<and> fd_lookup (os ex_quiet) (playback_fd ex_quiet) = Some ''playback_time''
   \<and> \<not> terminal (os ex_quiet) ''playback_time''
   \<and> debug_level (os ex_quiet) < 0
   \<and> log_playback_duration ex_quiet 1700000000 1700003725 \<noteq> None
   \<and> bytes (os (the (log_playback_duration ex_quiet 1700000000 1700003725))) ''playback_time''
       = ''UPNP_TOTAL=3725'' @ [nl]
   \<and> (0::int) \<le> 90000
   \<and> (90000::int) sdiv 3600 = 90000 div 3600
   \<and> ((90000::int) sdiv 60) smod 60 = (90000 div 60) mod 60
   \<and> (90000::int) smod 60 = 90000 mod 60"
proof -
  have nn: "(0::int) \<le> 90000" by simp
  have lo1: "INT_MIN \<le> 1700003725 - 1700000000" by (simp add: INT_MIN_def)
  have hi1: "1700003725 - 1700000000 \<le> INT_MAX" by (simp add: INT_MAX_def)
  have r1: "(3725::int) = 1700003725 - 1700000000" by simp
  have lo2: "INT_MIN \<le> 1700090000 - 1700000000" by (simp add: INT_MIN_def)
  have hi2: "1700090000 - 1700000000 \<le> INT_MAX" by (simp add: INT_MAX_def)
  have r2: "(90000::int) = 1700090000 - 1700000000" by simp
  have d: "fd_lookup (os ex_files) (playback_fd ex_files) = Some ''playback_time''"
    by (simp add: ex_eq op_eval)
  have nt: "\<not> terminal (os ex_files) ''playback_time''" by (simp add: ex_eq op_eval)
  have dl: "0 \<le> debug_level (os ex_files)" by (simp add: ex_eq op_eval)
  have l: "fd_lookup (os ex_files) (log_target ex_files) = Some ''gmrender.log''"
    by (simp add: ex_eq op_eval)
  have nd: "fd_lookup (os ex_files) (log_target ex_files) \<noteq> Some ''playback_time''"
    by (simp add: ex_eq op_eval)
  have ne: "''gmrender.log'' \<noteq> ''playback_time''" by simp
  have qd: "fd_lookup (os ex_quiet) (playback_fd ex_quiet) = Some ''playback_time''"
    by (simp add: ex_eq op_eval)
  have qnt: "\<not> terminal (os ex_quiet) ''playback_time''" by (simp add: ex_eq op_eval)
  have qdl: "debug_level (os ex_quiet) < 0" by (simp add: ex_eq op_eval)
  have b0: "bytes (os ex_files) ''gmrender.log'' = []" by (simp add: ex_eq op_eval)
  have t1: "''UPNP_TOTAL='' @ fmt_d 3725 @ [nl] = ''UPNP_TOTAL=3725'' @ [nl]"
    by (simp add: ex_eq op_eval)
  have t2: "''UPNP_TOTAL='' @ fmt_d 90000 @ [nl] = ''UPNP_TOTAL=90000'' @ [nl]"
    by (simp add: ex_eq op_eval)
  have ln1: "log_line ex_files (info_markup_start ex_files) ''transport''
        (''Total playing time '' @ fmt_02d (3725 sdiv 3600) @ '':''
           @ fmt_02d ((3725 sdiv 60) smod 60) @ '':'' @ fmt_02d (3725 smod 60) @ [nl])
      = ''INFO  [2023-11-14 22:13:20 | transport] Total playing time 01:02:05'' @ [nl]"
    by (simp add: ex_eq op_eval)
  have ln2: "log_line ex_files (info_markup_start ex_files) ''transport''
        (''Total playing time '' @ fmt_02d (90000 sdiv 3600) @ '':''
           @ fmt_02d ((90000 sdiv 60) smod 60) @ '':'' @ fmt_02d (90000 smod 60) @ [nl])
      = ''INFO  [2023-11-14 22:13:20 | transport] Total playing time 25:00:00'' @ [nl]"
    by (simp add: ex_eq op_eval)
  from playback_duration_record [OF lo1 hi1 r1 d nt, where l = "''gmrender.log''"]
  obtain s1 where s1: "log_playback_duration ex_files 1700000000 1700003725 = Some s1"
    and f1: "debug_level (os ex_files) < 0
        \<or> fd_lookup (os ex_files) (log_target ex_files) \<noteq> Some ''playback_time'' \<longrightarrow>
        bytes (os s1) ''playback_time'' = ''UPNP_TOTAL='' @ fmt_d 3725 @ [nl]"
    and g1: "0 \<le> debug_level (os ex_files)
        \<and> fd_lookup (os ex_files) (log_target ex_files) = Some ''gmrender.log''
        \<and> ''gmrender.log'' \<noteq> ''playback_time'' \<longrightarrow>
        bytes (os s1) ''gmrender.log'' = bytes (os ex_files) ''gmrender.log''
          @ log_line ex_files (info_markup_start ex_files) ''transport''
              (''Total playing time '' @ fmt_02d (3725 sdiv 3600) @ '':''
                 @ fmt_02d ((3725 sdiv 60) smod 60) @ '':'' @ fmt_02d (3725 smod 60) @ [nl])"
    by blast
  from playback_duration_record [OF lo2 hi2 r2 d nt, where l = "''gmrender.log''"]
  obtain s2 where s2: "log_playback_duration ex_files 1700000000 1700090000 = Some s2"
    and f2: "debug_level (os ex_files) < 0
        \<or> fd_lookup (os ex_files) (log_target ex_files) \<noteq> Some ''playback_time'' \<longrightarrow>
        bytes (os s2) ''playback_time'' = ''UPNP_TOTAL='' @ fmt_d 90000 @ [nl]"
    and g2: "0 \<le> debug_level (os ex_files)
        \<and> fd_lookup (os ex_files) (log_target ex_files) = Some ''gmrender.log''
        \<and> ''gmrender.log'' \<noteq> ''playback_time'' \<longrightarrow>
        bytes (os s2) ''gmrender.log'' = bytes (os ex_files) ''gmrender.log''
          @ log_line ex_files (info_markup_start ex_files) ''transport''
              (''Total playing time '' @ fmt_02d (90000 sdiv 3600) @ '':''
                 @ fmt_02d ((90000 sdiv 60) smod 60) @ '':'' @ fmt_02d (90000 smod 60) @ [nl])"
    and ar: "(0::int) \<le> 90000 \<longrightarrow> (90000::int) sdiv 3600 = 90000 div 3600
      \<and> ((90000::int) sdiv 60) smod 60 = (90000 div 60) mod 60
      \<and> (90000::int) smod 60 = 90000 mod 60"
    by blast
  from playback_duration_record [OF lo1 hi1 r1 qd qnt, where l = "''gmrender.log''"]
  obtain s3 where s3: "log_playback_duration ex_quiet 1700000000 1700003725 = Some s3"
    and f3: "debug_level (os ex_quiet) < 0
        \<or> fd_lookup (os ex_quiet) (log_target ex_quiet) \<noteq> Some ''playback_time'' \<longrightarrow>
        bytes (os s3) ''playback_time'' = ''UPNP_TOTAL='' @ fmt_d 3725 @ [nl]"
    by blast
  from ar nn have ar': "(90000::int) sdiv 3600 = 90000 div 3600
      \<and> ((90000::int) sdiv 60) smod 60 = (90000 div 60) mod 60
      \<and> (90000::int) smod 60 = 90000 mod 60"
    by (rule mp)
  from f1 nd have f1': "bytes (os s1) ''playback_time'' = ''UPNP_TOTAL='' @ fmt_d 3725 @ [nl]"
    by blast
  from g1 dl l ne have g1': "bytes (os s1) ''gmrender.log'' = bytes (os ex_files) ''gmrender.log''
          @ log_line ex_files (info_markup_start ex_files) ''transport''
              (''Total playing time '' @ fmt_02d (3725 sdiv 3600) @ '':''
                 @ fmt_02d ((3725 sdiv 60) smod 60) @ '':'' @ fmt_02d (3725 smod 60) @ [nl])"
    by blast
  from f2 nd have f2': "bytes (os s2) ''playback_time'' = ''UPNP_TOTAL='' @ fmt_d 90000 @ [nl]"
    by blast
  from g2 dl l ne have g2': "bytes (os s2) ''gmrender.log'' = bytes (os ex_files) ''gmrender.log''
          @ log_line ex_files (info_markup_start ex_files) ''transport''
              (''Total playing time '' @ fmt_02d (90000 sdiv 3600) @ '':''
                 @ fmt_02d ((90000 sdiv 60) smod 60) @ '':'' @ fmt_02d (90000 smod 60) @ [nl])"
    by blast
  from f3 qdl have f3': "bytes (os s3) ''playback_time'' = ''UPNP_TOTAL='' @ fmt_d 3725 @ [nl]"
    by blast
  have a0: "log_playback_duration ex_files 1700000000 1700003725 \<noteq> None"
    by (simp add: s1)
  have a1: "bytes (os (the (log_playback_duration ex_files 1700000000 1700003725)))
      ''playback_time'' = ''UPNP_TOTAL=3725'' @ [nl]"
    unfolding s1 option.sel f1' t1 ..
  have a2: "bytes (os (the (log_playback_duration ex_files 1700000000 1700003725)))
      ''gmrender.log''
      = ''INFO  [2023-11-14 22:13:20 | transport] Total playing time 01:02:05'' @ [nl]"
    unfolding s1 option.sel g1' ln1 b0 append_Nil ..
  have c0: "log_playback_duration ex_files 1700000000 1700090000 \<noteq> None"
    by (simp add: s2)
  have a3: "bytes (os (the (log_playback_duration ex_files 1700000000 1700090000)))
      ''playback_time'' = ''UPNP_TOTAL=90000'' @ [nl]"
    unfolding s2 option.sel f2' t2 ..
  have a4: "bytes (os (the (log_playback_duration ex_files 1700000000 1700090000)))
      ''gmrender.log''
      = ''INFO  [2023-11-14 22:13:20 | transport] Total playing time 25:00:00'' @ [nl]"
    unfolding s2 option.sel g2' ln2 b0 append_Nil ..
  have q0: "log_playback_duration ex_quiet 1700000000 1700003725 \<noteq> None"
    by (simp add: s3)
  have q1: "bytes (os (the (log_playback_duration ex_quiet 1700000000 1700003725)))
      ''playback_time'' = ''UPNP_TOTAL=3725'' @ [nl]"
    unfolding s3 option.sel f3' t1 ..
  from lo1 hi1 lo2 hi2 d nt dl l nd ne a0 a1 a2 c0 a3 a4 qd qnt qdl q0 q1 nn ar' show ?thesis
    by (simp only: simp_thms)
qed

end
